theory Spec2Isabelle
  imports Complex_Main
begin

section \<open>JavaScript values shared by the hooks\<close>

type_synonym Address = string
type_synonym Hash = string

text \<open>
  A JavaScript \<open>Error\<close> object is its message. A thrown value is either an \<open>Error\<close> or some
  other value, of which the code only ever uses \<open>String(err)\<close>.
\<close>

datatype js_error = Error (message: string)

datatype thrown = ThrowError js_error | ThrowValue string

text \<open>\<open>err instanceof Error ? err : new Error(String(err))\<close>\<close>

definition to_Error :: "thrown \<Rightarrow> js_error" where
  "to_Error err = (case err of ThrowError e \<Rightarrow> e | ThrowValue s \<Rightarrow> Error s)"

text \<open>Truthiness of an optional string: \<open>undefined\<close> and the empty string are falsy.\<close>

definition truthy :: "string option \<Rightarrow> bool" where
  "truthy x = (case x of None \<Rightarrow> False | Some v \<Rightarrow> v \<noteq> [])"

text \<open>\<open>a || b\<close> on an optional string with a string fallback.\<close>

definition or_else :: "string option \<Rightarrow> string \<Rightarrow> string" where
  "or_else x d = (case x of None \<Rightarrow> d | Some v \<Rightarrow> if v = [] then d else v)"

section \<open>constants.ts\<close>

datatype SupportedNetwork = Arbitrum | ArbitrumSepolia

definition RPC_ENDPOINTS :: "SupportedNetwork \<Rightarrow> string" where
  "RPC_ENDPOINTS n = (case n of
      Arbitrum \<Rightarrow> ''https://arb1.arbitrum.io/rpc''
    | ArbitrumSepolia \<Rightarrow> ''https://sepolia-rollup.arbitrum.io/rpc'')"

definition FACTORY_ADDRESSES :: "SupportedNetwork \<Rightarrow> Address" where
  "FACTORY_ADDRESSES n = (case n of
      Arbitrum \<Rightarrow> ''0xed088fd93517b0d0c3a3e4d2e2c419fb58570556''
    | ArbitrumSepolia \<Rightarrow> ''0xed088fd93517b0d0c3a3e4d2e2c419fb58570556'')"

definition TOKEN_DECIMALS :: nat where
  "TOKEN_DECIMALS = 18"

definition getRpcEndpoint :: "SupportedNetwork \<Rightarrow> string" where
  "getRpcEndpoint network = RPC_ENDPOINTS network"

definition getFactoryAddress :: "SupportedNetwork \<Rightarrow> Address" where
  "getFactoryAddress network = FACTORY_ADDRESSES network"

section \<open>Decimal strings\<close>

text \<open>\<open>bigint.toString()\<close> of a non-negative value, and \<open>BigInt(s)\<close> of a digit string.\<close>

definition digit_char :: "nat \<Rightarrow> char" where
  "digit_char n = ''0123456789'' ! n"

definition digit_val :: "char \<Rightarrow> nat" where
  "digit_val c = of_char c - 48"

definition is_digit :: "char \<Rightarrow> bool" where
  "is_digit c = (48 \<le> (of_char c :: nat) \<and> (of_char c :: nat) \<le> 57)"

fun nat_to_string :: "nat \<Rightarrow> string" where
  "nat_to_string n =
     (if n < 10 then [digit_char n] else nat_to_string (n div 10) @ [digit_char (n mod 10)])"

declare nat_to_string.simps [simp del]

definition digits_val :: "string \<Rightarrow> nat" where
  "digits_val s = foldl (\<lambda>a c. 10 * a + digit_val c) 0 s"

text \<open>\<open>s.replace(/(0+)$/, '')\<close>: drop the trailing zeros.\<close>

definition strip_trailing_zeros :: "string \<Rightarrow> string" where
  "strip_trailing_zeros s = rev (dropWhile (\<lambda>c. c = CHR ''0'') (rev s))"

text \<open>\<open>s.padStart(n, '0')\<close> and \<open>s.padEnd(n, '0')\<close>.\<close>

definition padStart0 :: "nat \<Rightarrow> string \<Rightarrow> string" where
  "padStart0 n s = replicate (n - length s) CHR ''0'' @ s"

definition padEnd0 :: "nat \<Rightarrow> string \<Rightarrow> string" where
  "padEnd0 n s = s @ replicate (n - length s) CHR ''0''"

text \<open>
  The exact rational number a decimal string denotes: an optional minus sign, the digits
  before the point, and the digits after it (if any) over the matching power of ten.
\<close>

definition unsigned_value :: "string \<Rightarrow> rat" where
  "unsigned_value s =
     (let whole = takeWhile (\<lambda>c. c \<noteq> CHR ''.'') s;
          frac = drop 1 (dropWhile (\<lambda>c. c \<noteq> CHR ''.'') s)
      in of_nat (digits_val whole) + of_nat (digits_val frac) / 10 ^ length frac)"

definition decimal_value :: "string \<Rightarrow> rat" where
  "decimal_value s =
     (case s of
        c # rest \<Rightarrow> if c = CHR ''-'' then - unsigned_value rest else unsigned_value s
      | [] \<Rightarrow> 0)"

section \<open>The chain gateway's unit conversion (viem)\<close>

text \<open>
  Modelled from the spec: \<open>formatUnits\<close> and \<open>parseUnits\<close> are imported by the hook from
  the contract-call client library (viem) and are not part of this repository's sources.
  The spec gives the formatting rule (raw integer / 10^decimals, as a canonical decimal
  string) and the encoding of a decimal string into a raw amount; the definitions below
  follow the library's published algorithm for both.
\<close>

text \<open>
  Modelled from the spec: \<open>formatUnits(value, decimals)\<close>. The digits of the absolute value
  are padded on the left to \<open>decimals\<close> digits and split \<open>decimals\<close> digits from the right;
  trailing zeros of the fraction are removed, an empty integer part reads \<open>0\<close> and an empty
  fraction is left out together with its point.
\<close>

definition formatUnits :: "int \<Rightarrow> nat \<Rightarrow> string" where
  "formatUnits val decimals =
     (let negative = val < 0;
          display = padStart0 decimals (nat_to_string (nat \<bar>val\<bar>));
          integer = take (length display - decimals) display;
          fraction = strip_trailing_zeros (drop (length display - decimals) display)
      in (if negative then ''-'' else [])
         @ (if integer = [] then ''0'' else integer)
         @ (if fraction = [] then [] else CHR ''.'' # fraction))"

text \<open>The test \<open>/^(-?)([0-9]*)\.?([0-9]*)$/\<close>.\<close>

definition is_decimal_number :: "string \<Rightarrow> bool" where
  "is_decimal_number val =
     (let s = (case val of c # r \<Rightarrow> if c = CHR ''-'' then r else val | [] \<Rightarrow> []);
          a = dropWhile is_digit s;
          b = (case a of c # r \<Rightarrow> if c = CHR ''.'' then r else a | [] \<Rightarrow> [])
      in dropWhile is_digit b = [])"

definition InvalidDecimalNumberError :: "string \<Rightarrow> thrown" where
  "InvalidDecimalNumberError val =
     ThrowError (Error (''Number `'' @ val @ ''` is not a valid decimal number.''))"

text \<open>
  Modelled from the spec: \<open>parseUnits(value, decimals)\<close>. A fraction longer than \<open>decimals\<close>
  is rounded by the library through \<open>Math.round(Number(...))\<close>, a floating-point
  computation: that one function is the parameter \<open>mathRound\<close>, from the numeral's text to
  the rounded number. A fraction of at most \<open>decimals\<close> digits is padded with zeros on the
  right and never reaches it.
\<close>

definition parseUnits :: "(string \<Rightarrow> nat) \<Rightarrow> string \<Rightarrow> nat \<Rightarrow> thrown + int" where
  "parseUnits mathRound val decimals =
     (if \<not> is_decimal_number val then Inl (InvalidDecimalNumberError val)
      else
        let head = takeWhile (\<lambda>c. c \<noteq> CHR ''.'') val;
            rest = dropWhile (\<lambda>c. c \<noteq> CHR ''.'') val;
            fraction0 = (if rest = [] then ''0'' else drop 1 rest);
            negative = (take 1 head = ''-'');
            integer = (if negative then drop 1 head else head);
            fraction = strip_trailing_zeros fraction0;
            (integer', fraction') =
              (if decimals = 0 then
                 ((if fraction \<noteq> [] \<and> mathRound (CHR ''.'' # fraction) = 1
                   then nat_to_string (digits_val integer + 1) else integer), [])
               else if length fraction > decimals then
                 let left = take (decimals - 1) fraction;
                     unit = take 1 (drop (decimals - 1) fraction);
                     right = drop decimals fraction;
                     rounded = mathRound (unit @ ''.'' @ right);
                     fraction1 =
                       (if rounded > 9
                        then padStart0 (length left + 1) (nat_to_string (digits_val left + 1) @ ''0'')
                        else left @ nat_to_string rounded);
                     (integer2, fraction2) =
                       (if length fraction1 > decimals
                        then (nat_to_string (digits_val integer + 1), drop 1 fraction1)
                        else (integer, fraction1))
                 in (integer2, take decimals fraction2)
               else (integer, padEnd0 decimals fraction))
        in if negative \<and> integer' @ fraction' = []
           then Inl (ThrowError (Error ''Cannot convert - to a BigInt''))
           else Inr ((if negative then - 1 else 1) * int (digits_val (integer' @ fraction'))))"

section \<open>The unit conversion of the plain interaction functions (ethers)\<close>

text \<open>
  Modelled from the spec: \<open>ethers.formatUnits\<close> and \<open>ethers.parseUnits\<close> are third-party
  library functions, not part of this repository's sources. The definitions follow the
  library's fixed-point number: the same formatting rule (raw integer / 10^decimals), with
  at least one digit kept on each side of the point, and no rounding when parsing.
\<close>

definition trim_leading_zeros :: "string \<Rightarrow> string" where
  "trim_leading_zeros s =
     (let t = dropWhile (\<lambda>c. c = CHR ''0'') s in if t = [] then ''0'' else t)"

definition trim_trailing_zeros :: "string \<Rightarrow> string" where
  "trim_trailing_zeros s =
     (let t = strip_trailing_zeros s in if t = [] then ''0'' else t)"

text \<open>
  Modelled from the spec: \<open>ethers.formatUnits(value, decimals)\<close>. With no decimals the
  digits are returned as they are. Otherwise the digits are padded with zeros to more than
  \<open>decimals\<close> digits, the point is put \<open>decimals\<close> digits from the right, and zeros are
  trimmed from both ends, leaving at least one digit before and one after the point.
\<close>

definition ethers_formatUnits :: "int \<Rightarrow> nat \<Rightarrow> string" where
  "ethers_formatUnits val decimals =
     (let negative = (if val < 0 then ''-'' else []);
          str = nat_to_string (nat \<bar>val\<bar>)
      in if decimals = 0 then negative @ str
         else
           let padded = padStart0 (Suc decimals) str;
               index = length padded - decimals
           in negative @ trim_leading_zeros (take index padded)
                @ ''.'' @ trim_trailing_zeros (drop index padded))"

text \<open>
  Modelled from the spec: \<open>ethers.parseUnits(value, decimals)\<close>. The text must match
  \<open>/^(-?)([0-9]*)\.?([0-9]*)$/\<close> with at least one digit; digits beyond \<open>decimals\<close> must
  all be zero; the result must fit the signed 512-bit format.
\<close>

definition ethers_parseUnits :: "string \<Rightarrow> nat \<Rightarrow> thrown + int" where
  "ethers_parseUnits val decimals =
     (let negative = (take 1 val = ''-'');
          unsigned = (if negative then drop 1 val else val);
          whole0 = takeWhile is_digit unsigned;
          decimal0 = takeWhile is_digit (drop 1 (dropWhile is_digit unsigned))
      in if \<not> is_decimal_number val \<or> length whole0 + length decimal0 = 0
         then Inl (ThrowError (Error ''invalid FixedNumber string value''))
         else
           let whole = (if whole0 = [] then ''0'' else whole0);
               padded = padEnd0 decimals decimal0
           in if \<not> list_all (\<lambda>c. c = CHR ''0'') (drop decimals padded)
              then Inl (ThrowError (Error ''too many decimals for format''))
              else
                let v = (if negative then - 1 else 1) * int (digits_val (whole @ take decimals padded))
                in if - (2 ^ 511) \<le> v \<and> v < 2 ^ 511 then Inr v
                   else Inl (ThrowError (Error ''overflow'')))"

section \<open>types.ts\<close>

text \<open>
  The interfaces, with the source's field names. Two fields are renamed, because a field
  name is a constant of the theory and can be declared once: \<open>BalanceInfo.balance\<close> is
  \<open>balance_raw\<close> (the hook has a state cell \<open>balance\<close>), and \<open>AllowanceInfo.formatted\<close> is
  \<open>allowance_formatted\<close>. A \<open>bigint\<close> is an \<open>int\<close>, the \<open>number\<close> of decimals a \<open>nat\<close>.
\<close>

record TokenInfo =
  address :: Address
  name :: string
  symbol :: string
  decimals :: nat
  totalSupply :: int
  formattedTotalSupply :: string
  owner :: Address
  paused :: bool

record BalanceInfo =
  balance_raw :: int
  formatted :: string

record AllowanceInfo =
  allowance :: int
  allowance_formatted :: string

datatype TransactionState =
    TxIdle
  | TxPending
  | TxConfirming Hash
  | TxSuccess Hash
  | TxError js_error

datatype 'a AsyncState =
    Idle
  | Loading
  | Success 'a
  | Failure js_error

section \<open>hooks/useERC20Interactions.ts\<close>

text \<open>
  The read client answers \<open>readContract\<close> with a value typed by the ABI entry of the view
  function asked for, so it is one field per view function the hook reads; each field is
  the settlement of the promise (\<open>Inl\<close> a rejection). \<open>simulateContract\<close> resolves to a
  request, which the wallet client's \<open>writeContract\<close> turns into a transaction hash.
\<close>

datatype arg = ArgAddress Address | ArgUint int

datatype Request = Request Address string "arg list" "Address option"

record PublicClient =
  read_name :: "Address \<Rightarrow> thrown + string"
  read_symbol :: "Address \<Rightarrow> thrown + string"
  read_decimals :: "Address \<Rightarrow> thrown + nat"
  read_totalSupply :: "Address \<Rightarrow> thrown + int"
  read_owner :: "Address \<Rightarrow> thrown + Address"
  read_paused :: "Address \<Rightarrow> thrown + bool"
  read_balanceOf :: "Address \<Rightarrow> Address \<Rightarrow> thrown + int"
  read_allowance :: "Address \<Rightarrow> Address \<Rightarrow> Address \<Rightarrow> thrown + int"
  simulateContract :: "Address \<Rightarrow> string \<Rightarrow> arg list \<Rightarrow> Address option \<Rightarrow> thrown + Request"
  waitForTransactionReceipt :: "Hash \<Rightarrow> thrown + unit"

record WalletClient =
  account :: "Address option"
  writeContract :: "Request \<Rightarrow> thrown + Hash"

record UseERC20InteractionsOptions =
  contractAddress :: Address
  network :: SupportedNetwork
  publicClient :: "PublicClient option"
  walletClient :: "WalletClient option"
  userAddress :: "Address option"

text \<open>
  What a run of the hook does, in order: the state setters it calls and the requests it
  sends to the chain gateway.
\<close>

datatype event =
    SetTokenInfo "TokenInfo AsyncState"
  | SetBalance "BalanceInfo AsyncState"
  | SetTxState TransactionState
  | SetError "js_error option"
  | ReadContract Address string "arg list"
  | SimulateContract Address string "arg list" "Address option"
  | WriteContract Request
  | WaitForTransactionReceipt Hash

fun is_gateway_call :: "event \<Rightarrow> bool" where
  "is_gateway_call (ReadContract _ _ _) = True"
| "is_gateway_call (SimulateContract _ _ _ _) = True"
| "is_gateway_call (WriteContract _) = True"
| "is_gateway_call (WaitForTransactionReceipt _) = True"
| "is_gateway_call _ = False"

definition gateway_calls :: "event list \<Rightarrow> event list" where
  "gateway_calls evs = filter is_gateway_call evs"

fun tx_states :: "event list \<Rightarrow> TransactionState list" where
  "tx_states [] = []"
| "tx_states (SetTxState t # evs) = t # tx_states evs"
| "tx_states (_ # evs) = tx_states evs"

text \<open>The four \<open>useState\<close> cells of the hook, and the trace of what has happened so far.\<close>

record hook_state =
  tokenInfo :: "TokenInfo AsyncState"
  balance :: "BalanceInfo AsyncState"
  txState :: TransactionState
  error :: "js_error option"
  trace :: "event list"

definition initial_state :: hook_state where
  "initial_state = \<lparr>tokenInfo = Idle, balance = Idle, txState = TxIdle, error = None, trace = []\<rparr>"

definition emit :: "event list \<Rightarrow> hook_state \<Rightarrow> hook_state" where
  "emit evs s = s\<lparr>trace := trace s @ evs\<rparr>"

definition setTokenInfo :: "TokenInfo AsyncState \<Rightarrow> hook_state \<Rightarrow> hook_state" where
  "setTokenInfo v s = emit [SetTokenInfo v] (s\<lparr>tokenInfo := v\<rparr>)"

definition setBalance :: "BalanceInfo AsyncState \<Rightarrow> hook_state \<Rightarrow> hook_state" where
  "setBalance v s = emit [SetBalance v] (s\<lparr>balance := v\<rparr>)"

definition setTxState :: "TransactionState \<Rightarrow> hook_state \<Rightarrow> hook_state" where
  "setTxState v s = emit [SetTxState v] (s\<lparr>txState := v\<rparr>)"

definition setError :: "js_error option \<Rightarrow> hook_state \<Rightarrow> hook_state" where
  "setError v s = emit [SetError v] (s\<lparr>error := v\<rparr>)"

text \<open>Awaiting a settled promise inside a \<open>try\<close>: a rejection skips the rest of the block.\<close>

definition await :: "thrown + 'a \<Rightarrow> ('a \<Rightarrow> thrown + 'b) \<Rightarrow> thrown + 'b" where
  "await p k = (case p of Inl err \<Rightarrow> Inl err | Inr v \<Rightarrow> k v)"

text \<open>
  \<open>refetchTokenInfo\<close>. The six reads of \<open>Promise.all\<close> are all sent before any of them is
  awaited; when several reject, the rejection reported is taken to be the first in the
  order of the array.
\<close>

definition refetchTokenInfo :: "UseERC20InteractionsOptions \<Rightarrow> hook_state \<Rightarrow> hook_state" where
  "refetchTokenInfo opts s =
     (case publicClient opts of
        None \<Rightarrow> s
      | Some pc \<Rightarrow>
          let ca = contractAddress opts;
              s1 = setTokenInfo Loading s;
              s2 = emit [ReadContract ca ''name'' [], ReadContract ca ''symbol'' [],
                         ReadContract ca ''decimals'' [], ReadContract ca ''totalSupply'' [],
                         ReadContract ca ''owner'' [], ReadContract ca ''paused'' []] s1;
              settled =
                await (read_name pc ca) (\<lambda>name_v.
                await (read_symbol pc ca) (\<lambda>symbol_v.
                await (read_decimals pc ca) (\<lambda>decimals_v.
                await (read_totalSupply pc ca) (\<lambda>totalSupply_v.
                await (read_owner pc ca) (\<lambda>owner_v.
                await (read_paused pc ca) (\<lambda>paused_v.
                  Inr \<lparr>address = ca, name = name_v, symbol = symbol_v,
                       decimals = decimals_v, totalSupply = totalSupply_v,
                       formattedTotalSupply = formatUnits totalSupply_v decimals_v,
                       owner = owner_v, paused = paused_v\<rparr>))))))
          in (case settled of
                Inr data \<Rightarrow> setTokenInfo (Success data) s2
              | Inl err \<Rightarrow> setTokenInfo (Failure (to_Error err)) s2))"

definition refetchBalance :: "UseERC20InteractionsOptions \<Rightarrow> hook_state \<Rightarrow> hook_state" where
  "refetchBalance opts s =
     (case publicClient opts of
        None \<Rightarrow> setBalance Idle s
      | Some pc \<Rightarrow>
          (case userAddress opts of
             None \<Rightarrow> setBalance Idle s
           | Some ua \<Rightarrow>
               if ua = [] then setBalance Idle s
               else
                 let s1 = setBalance Loading s;
                     s2 = emit [ReadContract (contractAddress opts) ''balanceOf'' [ArgAddress ua]] s1
                 in (case read_balanceOf pc (contractAddress opts) ua of
                       Inr balanceValue \<Rightarrow>
                         setBalance (Success \<lparr>balance_raw = balanceValue,
                           formatted = formatUnits balanceValue TOKEN_DECIMALS\<rparr>) s2
                     | Inl err \<Rightarrow> setBalance (Failure (to_Error err)) s2)))"

definition getAllowance ::
  "UseERC20InteractionsOptions \<Rightarrow> Address \<Rightarrow> hook_state \<Rightarrow> (thrown + AllowanceInfo) \<times> hook_state" where
  "getAllowance opts spender s =
     (case publicClient opts of
        None \<Rightarrow> (Inl (ThrowError (Error ''Public client and user address are required'')), s)
      | Some pc \<Rightarrow>
          (case userAddress opts of
             None \<Rightarrow> (Inl (ThrowError (Error ''Public client and user address are required'')), s)
           | Some ua \<Rightarrow>
               if ua = []
               then (Inl (ThrowError (Error ''Public client and user address are required'')), s)
               else
                 let s1 = emit [ReadContract (contractAddress opts) ''allowance''
                                  [ArgAddress ua, ArgAddress spender]] s
                 in (case read_allowance pc (contractAddress opts) ua spender of
                       Inl err \<Rightarrow> (Inl err, s1)
                     | Inr a \<Rightarrow>
                         (Inr \<lparr>allowance = a,
                               allowance_formatted = formatUnits a TOKEN_DECIMALS\<rparr>, s1))))"

text \<open>The \<open>catch\<close> block of \<open>executeTransaction\<close>.\<close>

definition tx_catch :: "thrown \<Rightarrow> hook_state \<Rightarrow> (thrown + Hash) \<times> hook_state" where
  "tx_catch err s =
     (let e = to_Error err
      in (Inl (ThrowError e), setTxState (TxError e) (setError (Some e) s)))"

definition executeTransaction ::
  "UseERC20InteractionsOptions \<Rightarrow> string \<Rightarrow> arg list \<Rightarrow> hook_state \<Rightarrow> (thrown + Hash) \<times> hook_state" where
  "executeTransaction opts functionName args s =
     (case walletClient opts of
        None \<Rightarrow> (Inl (ThrowError (Error ''Wallet client is required for transactions'')), s)
      | Some wc \<Rightarrow>
          (case publicClient opts of
             None \<Rightarrow> (Inl (ThrowError (Error ''Wallet client is required for transactions'')), s)
           | Some pc \<Rightarrow>
               let s1 = setTxState TxPending (setError None s);
                   s2 = emit [SimulateContract (contractAddress opts) functionName args (account wc)] s1
               in (case simulateContract pc (contractAddress opts) functionName args (account wc) of
                     Inl err \<Rightarrow> tx_catch err s2
                   | Inr request \<Rightarrow>
                       let s3 = emit [WriteContract request] s2
                       in (case writeContract wc request of
                             Inl err \<Rightarrow> tx_catch err s3
                           | Inr hash \<Rightarrow>
                               let s4 = setTxState (TxConfirming hash) s3;
                                   s5 = emit [WaitForTransactionReceipt hash] s4
                               in (case waitForTransactionReceipt pc hash of
                                     Inl err \<Rightarrow> tx_catch err s5
                                   | Inr _ \<Rightarrow> (Inr hash, setTxState (TxSuccess hash) s5))))))"

text \<open>
  A refetch that is started without being awaited runs at once up to its first \<open>await\<close>
  (the guard, the loading state, the reads sent) and does the rest when its reads have
  settled. The two phases of each refetch, for the operations that start both refetches
  one after the other.
\<close>

definition refetchTokenInfo_start :: "UseERC20InteractionsOptions \<Rightarrow> hook_state \<Rightarrow> hook_state" where
  "refetchTokenInfo_start opts s =
     (case publicClient opts of
        None \<Rightarrow> s
      | Some pc \<Rightarrow>
          let ca = contractAddress opts
          in emit [ReadContract ca ''name'' [], ReadContract ca ''symbol'' [],
                   ReadContract ca ''decimals'' [], ReadContract ca ''totalSupply'' [],
                   ReadContract ca ''owner'' [], ReadContract ca ''paused'' []]
               (setTokenInfo Loading s))"

definition refetchTokenInfo_settle :: "UseERC20InteractionsOptions \<Rightarrow> hook_state \<Rightarrow> hook_state" where
  "refetchTokenInfo_settle opts s =
     (case publicClient opts of
        None \<Rightarrow> s
      | Some pc \<Rightarrow>
          let ca = contractAddress opts;
              settled =
                await (read_name pc ca) (\<lambda>name_v.
                await (read_symbol pc ca) (\<lambda>symbol_v.
                await (read_decimals pc ca) (\<lambda>decimals_v.
                await (read_totalSupply pc ca) (\<lambda>totalSupply_v.
                await (read_owner pc ca) (\<lambda>owner_v.
                await (read_paused pc ca) (\<lambda>paused_v.
                  Inr \<lparr>address = ca, name = name_v, symbol = symbol_v,
                       decimals = decimals_v, totalSupply = totalSupply_v,
                       formattedTotalSupply = formatUnits totalSupply_v decimals_v,
                       owner = owner_v, paused = paused_v\<rparr>))))))
          in (case settled of
                Inr data \<Rightarrow> setTokenInfo (Success data) s
              | Inl err \<Rightarrow> setTokenInfo (Failure (to_Error err)) s))"

definition refetchBalance_start :: "UseERC20InteractionsOptions \<Rightarrow> hook_state \<Rightarrow> hook_state" where
  "refetchBalance_start opts s =
     (case publicClient opts of
        None \<Rightarrow> setBalance Idle s
      | Some pc \<Rightarrow>
          (case userAddress opts of
             None \<Rightarrow> setBalance Idle s
           | Some ua \<Rightarrow>
               if ua = [] then setBalance Idle s
               else emit [ReadContract (contractAddress opts) ''balanceOf'' [ArgAddress ua]]
                      (setBalance Loading s)))"

definition refetchBalance_settle :: "UseERC20InteractionsOptions \<Rightarrow> hook_state \<Rightarrow> hook_state" where
  "refetchBalance_settle opts s =
     (case publicClient opts of
        None \<Rightarrow> s
      | Some pc \<Rightarrow>
          (case userAddress opts of
             None \<Rightarrow> s
           | Some ua \<Rightarrow>
               if ua = [] then s
               else
                 (case read_balanceOf pc (contractAddress opts) ua of
                    Inr balanceValue \<Rightarrow>
                      setBalance (Success \<lparr>balance_raw = balanceValue,
                        formatted = formatUnits balanceValue TOKEN_DECIMALS\<rparr>) s
                  | Inl err \<Rightarrow> setBalance (Failure (to_Error err)) s)))"

text \<open>
  \<open>refetchTokenInfo(); refetchBalance();\<close> as \<open>mint\<close> and \<open>burn\<close> have it: the token-info
  refetch is started, then the balance refetch is started, and only then does either
  settle. The code does not determine which settles first; the token-info one is taken
  first here.
\<close>

definition refetch_both :: "UseERC20InteractionsOptions \<Rightarrow> hook_state \<Rightarrow> hook_state" where
  "refetch_both opts s =
     refetchBalance_settle opts
       (refetchTokenInfo_settle opts
          (refetchBalance_start opts
             (refetchTokenInfo_start opts s)))"

text \<open>
  The eight write operations. Each awaits \<open>executeTransaction\<close>, so its rejection leaves
  the operation before the refetches; the refetches themselves are started without being
  awaited and are run here to their settlement.
\<close>

definition then_refetch ::
  "(hook_state \<Rightarrow> hook_state) \<Rightarrow> (thrown + Hash) \<times> hook_state \<Rightarrow> (thrown + Hash) \<times> hook_state" where
  "then_refetch refetch r =
     (case r of (Inl err, s) \<Rightarrow> (Inl err, s) | (Inr hash, s) \<Rightarrow> (Inr hash, refetch s))"

definition transfer ::
  "(string \<Rightarrow> nat) \<Rightarrow> UseERC20InteractionsOptions \<Rightarrow> Address \<Rightarrow> string \<Rightarrow> hook_state
     \<Rightarrow> (thrown + Hash) \<times> hook_state" where
  "transfer mathRound opts to_addr amount s =
     (case parseUnits mathRound amount TOKEN_DECIMALS of
        Inl err \<Rightarrow> (Inl err, s)
      | Inr amountWei \<Rightarrow>
          then_refetch (refetchBalance opts)
            (executeTransaction opts ''transfer'' [ArgAddress to_addr, ArgUint amountWei] s))"

definition approve ::
  "(string \<Rightarrow> nat) \<Rightarrow> UseERC20InteractionsOptions \<Rightarrow> Address \<Rightarrow> string \<Rightarrow> hook_state
     \<Rightarrow> (thrown + Hash) \<times> hook_state" where
  "approve mathRound opts spender amount s =
     (case parseUnits mathRound amount TOKEN_DECIMALS of
        Inl err \<Rightarrow> (Inl err, s)
      | Inr amountWei \<Rightarrow>
          executeTransaction opts ''approve'' [ArgAddress spender, ArgUint amountWei] s)"

definition transferFrom ::
  "(string \<Rightarrow> nat) \<Rightarrow> UseERC20InteractionsOptions \<Rightarrow> Address \<Rightarrow> Address \<Rightarrow> string \<Rightarrow> hook_state
     \<Rightarrow> (thrown + Hash) \<times> hook_state" where
  "transferFrom mathRound opts from_addr to_addr amount s =
     (case parseUnits mathRound amount TOKEN_DECIMALS of
        Inl err \<Rightarrow> (Inl err, s)
      | Inr amountWei \<Rightarrow>
          then_refetch (refetchBalance opts)
            (executeTransaction opts ''transferFrom''
               [ArgAddress from_addr, ArgAddress to_addr, ArgUint amountWei] s))"

definition mint ::
  "(string \<Rightarrow> nat) \<Rightarrow> UseERC20InteractionsOptions \<Rightarrow> Address \<Rightarrow> string \<Rightarrow> hook_state
     \<Rightarrow> (thrown + Hash) \<times> hook_state" where
  "mint mathRound opts to_addr amount s =
     (case parseUnits mathRound amount TOKEN_DECIMALS of
        Inl err \<Rightarrow> (Inl err, s)
      | Inr amountWei \<Rightarrow>
          then_refetch (refetch_both opts)
            (executeTransaction opts ''mint'' [ArgAddress to_addr, ArgUint amountWei] s))"

definition burn ::
  "(string \<Rightarrow> nat) \<Rightarrow> UseERC20InteractionsOptions \<Rightarrow> string \<Rightarrow> hook_state
     \<Rightarrow> (thrown + Hash) \<times> hook_state" where
  "burn mathRound opts amount s =
     (case parseUnits mathRound amount TOKEN_DECIMALS of
        Inl err \<Rightarrow> (Inl err, s)
      | Inr amountWei \<Rightarrow>
          then_refetch (refetch_both opts)
            (executeTransaction opts ''burn'' [ArgUint amountWei] s))"

definition pause :: "UseERC20InteractionsOptions \<Rightarrow> hook_state \<Rightarrow> (thrown + Hash) \<times> hook_state" where
  "pause opts s = then_refetch (refetchTokenInfo opts) (executeTransaction opts ''pause'' [] s)"

definition unpause :: "UseERC20InteractionsOptions \<Rightarrow> hook_state \<Rightarrow> (thrown + Hash) \<times> hook_state" where
  "unpause opts s = then_refetch (refetchTokenInfo opts) (executeTransaction opts ''unpause'' [] s)"

definition transferOwnership ::
  "UseERC20InteractionsOptions \<Rightarrow> Address \<Rightarrow> hook_state \<Rightarrow> (thrown + Hash) \<times> hook_state" where
  "transferOwnership opts newOwner s =
     then_refetch (refetchTokenInfo opts)
       (executeTransaction opts ''transferOwnership'' [ArgAddress newOwner] s)"

text \<open>\<open>isLoading\<close>, as the hook returns it.\<close>

definition isLoading :: "hook_state \<Rightarrow> bool" where
  "isLoading s = (case txState s of TxPending \<Rightarrow> True | TxConfirming _ \<Rightarrow> True | _ \<Rightarrow> False)"

text \<open>
  A caller of the hook picks one of the eight write operations it returns; \<open>run_write\<close> is
  that choice, and \<open>write_call\<close> names the contract function and arguments the chosen
  operation stands for (or the rejection of an amount that is not a decimal number).
\<close>

datatype write_op =
    Transfer Address string
  | Approve Address string
  | TransferFrom Address Address string
  | Mint Address string
  | Burn string
  | Pause
  | Unpause
  | TransferOwnership Address

fun run_write ::
  "(string \<Rightarrow> nat) \<Rightarrow> UseERC20InteractionsOptions \<Rightarrow> write_op \<Rightarrow> hook_state
     \<Rightarrow> (thrown + Hash) \<times> hook_state" where
  "run_write mathRound opts (Transfer to_addr amount) s = transfer mathRound opts to_addr amount s"
| "run_write mathRound opts (Approve spender amount) s = approve mathRound opts spender amount s"
| "run_write mathRound opts (TransferFrom from_addr to_addr amount) s =
     transferFrom mathRound opts from_addr to_addr amount s"
| "run_write mathRound opts (Mint to_addr amount) s = mint mathRound opts to_addr amount s"
| "run_write mathRound opts (Burn amount) s = burn mathRound opts amount s"
| "run_write mathRound opts Pause s = pause opts s"
| "run_write mathRound opts Unpause s = unpause opts s"
| "run_write mathRound opts (TransferOwnership newOwner) s = transferOwnership opts newOwner s"

fun write_call :: "(string \<Rightarrow> nat) \<Rightarrow> write_op \<Rightarrow> thrown + string \<times> arg list" where
  "write_call mathRound (Transfer to_addr amount) =
     await (parseUnits mathRound amount 18) (\<lambda>w. Inr (''transfer'', [ArgAddress to_addr, ArgUint w]))"
| "write_call mathRound (Approve spender amount) =
     await (parseUnits mathRound amount 18) (\<lambda>w. Inr (''approve'', [ArgAddress spender, ArgUint w]))"
| "write_call mathRound (TransferFrom from_addr to_addr amount) =
     await (parseUnits mathRound amount 18)
       (\<lambda>w. Inr (''transferFrom'', [ArgAddress from_addr, ArgAddress to_addr, ArgUint w]))"
| "write_call mathRound (Mint to_addr amount) =
     await (parseUnits mathRound amount 18) (\<lambda>w. Inr (''mint'', [ArgAddress to_addr, ArgUint w]))"
| "write_call mathRound (Burn amount) =
     await (parseUnits mathRound amount 18) (\<lambda>w. Inr (''burn'', [ArgUint w]))"
| "write_call mathRound Pause = Inr (''pause'', [])"
| "write_call mathRound Unpause = Inr (''unpause'', [])"
| "write_call mathRound (TransferOwnership newOwner) =
     Inr (''transferOwnership'', [ArgAddress newOwner])"

section \<open>interactions.ts: the plain interaction functions\<close>

text \<open>
  The functions of the module build an ethers provider (and wallet) and contract from
  their arguments and call it. The record is what those objects answer: the wallet
  constructor, each view function of the contract at an address behind an RPC endpoint,
  the sending of a transaction by a method call, and the wait for its receipt. The module's
  functions carry the prefix \<open>interactions_\<close> here, since the hook has closures of the same
  names.
\<close>

datatype ContractTransactionResponse = ContractTransactionResponse string

record Ethers =
  new_Wallet :: "string \<Rightarrow> string \<Rightarrow> thrown + unit"
  contract_name :: "Address \<Rightarrow> string \<Rightarrow> thrown + string"
  contract_symbol :: "Address \<Rightarrow> string \<Rightarrow> thrown + string"
  contract_decimals :: "Address \<Rightarrow> string \<Rightarrow> thrown + nat"
  contract_totalSupply :: "Address \<Rightarrow> string \<Rightarrow> thrown + int"
  contract_owner :: "Address \<Rightarrow> string \<Rightarrow> thrown + Address"
  contract_paused :: "Address \<Rightarrow> string \<Rightarrow> thrown + bool"
  contract_balanceOf :: "Address \<Rightarrow> string \<Rightarrow> Address \<Rightarrow> thrown + int"
  contract_allowance :: "Address \<Rightarrow> string \<Rightarrow> Address \<Rightarrow> Address \<Rightarrow> thrown + int"
  contract_send ::
    "Address \<Rightarrow> string \<Rightarrow> string \<Rightarrow> string \<Rightarrow> arg list \<Rightarrow> thrown + ContractTransactionResponse"
  tx_wait :: "ContractTransactionResponse \<Rightarrow> thrown + Hash"

definition interactions_getTokenInfo :: "Ethers \<Rightarrow> Address \<Rightarrow> string \<Rightarrow> thrown + TokenInfo" where
  "interactions_getTokenInfo E ca rpc =
     await (contract_name E ca rpc) (\<lambda>name_v.
     await (contract_symbol E ca rpc) (\<lambda>symbol_v.
     await (contract_decimals E ca rpc) (\<lambda>decimals_v.
     await (contract_totalSupply E ca rpc) (\<lambda>totalSupply_v.
     await (contract_owner E ca rpc) (\<lambda>owner_v.
     await (contract_paused E ca rpc) (\<lambda>paused_v.
       Inr \<lparr>address = ca, name = name_v, symbol = symbol_v,
            decimals = decimals_v, totalSupply = totalSupply_v,
            formattedTotalSupply = ethers_formatUnits totalSupply_v decimals_v,
            owner = owner_v, paused = paused_v\<rparr>))))))"

definition interactions_getBalance ::
  "Ethers \<Rightarrow> Address \<Rightarrow> Address \<Rightarrow> string \<Rightarrow> thrown + BalanceInfo" where
  "interactions_getBalance E ca accountAddress rpc =
     await (contract_balanceOf E ca rpc accountAddress) (\<lambda>b.
       Inr \<lparr>balance_raw = b, formatted = ethers_formatUnits b TOKEN_DECIMALS\<rparr>)"

definition interactions_getAllowance ::
  "Ethers \<Rightarrow> Address \<Rightarrow> Address \<Rightarrow> Address \<Rightarrow> string \<Rightarrow> thrown + AllowanceInfo" where
  "interactions_getAllowance E ca ownerAddress spenderAddress rpc =
     await (contract_allowance E ca rpc ownerAddress spenderAddress) (\<lambda>a.
       Inr \<lparr>allowance = a, allowance_formatted = ethers_formatUnits a TOKEN_DECIMALS\<rparr>)"

definition interactions_transfer ::
  "Ethers \<Rightarrow> Address \<Rightarrow> Address \<Rightarrow> string \<Rightarrow> string \<Rightarrow> string \<Rightarrow> thrown + Hash" where
  "interactions_transfer E ca to_addr amount pk rpc =
     await (new_Wallet E pk rpc) (\<lambda>_.
     await (ethers_parseUnits amount TOKEN_DECIMALS) (\<lambda>amountWei.
     await (contract_send E ca pk rpc ''transfer'' [ArgAddress to_addr, ArgUint amountWei]) (\<lambda>tx.
     await (tx_wait E tx) (\<lambda>receipt_hash. Inr receipt_hash))))"

section \<open>deployment.ts\<close>

record DeployTokenParams =
  token_name :: string
  token_symbol :: string
  initialSupply :: string
  factoryAddress :: "Address option"

text \<open>
  The result as it is at run time: the fields read off the response body are whatever the
  body holds, so a field the body lacks is \<open>None\<close> whatever the declared type says.
\<close>

record DeployTokenResult =
  tokenAddress :: "Address option"
  txHash :: Hash
  success :: "bool option"
  deployOutput :: "string option"
  initOutput :: "string option"
  registerOutput :: "string option"

text \<open>The argument of \<open>deployERC20TokenViaAPI\<close>.\<close>

record DeployApiParams = DeployTokenParams +
  privateKey :: string
  rpcEndpoint :: string
  deploymentApiUrl :: string

text \<open>The object given to \<open>JSON.stringify\<close> for the request body.\<close>

record DeployRequestBody =
  body_name :: string
  body_symbol :: string
  body_initialSupply :: string
  body_factoryAddress :: "Address option"
  body_privateKey :: string
  body_rpcEndpoint :: string

text \<open>
  The parsed body of a response of the deployment gateway: a JSON object, of which the
  code reads these fields (\<open>None\<close>: the field is absent). The gateway's contract gives them
  the types below.
\<close>

record ResponseBody =
  r_error :: "string option"
  r_tokenAddress :: "Address option"
  r_txHash :: "Hash option"
  r_success :: "bool option"
  r_deployOutput :: "string option"
  r_initOutput :: "string option"
  r_registerOutput :: "string option"

text \<open>A response: its status, and what \<open>response.json()\<close> settles to.\<close>

record Response =
  status :: nat
  json :: "thrown + ResponseBody"

text \<open>\<open>response.ok\<close>: the status is in the range 200 to 299.\<close>

definition ok :: "Response \<Rightarrow> bool" where
  "ok response = (200 \<le> status response \<and> status response \<le> 299)"

definition request_url :: "DeployApiParams \<Rightarrow> string" where
  "request_url params = deploymentApiUrl params @ ''/deploy-token''"

definition request_body :: "DeployApiParams \<Rightarrow> DeployRequestBody" where
  "request_body params =
     \<lparr>body_name = token_name params, body_symbol = token_symbol params,
      body_initialSupply = initialSupply params, body_factoryAddress = factoryAddress params,
      body_privateKey = privateKey params, body_rpcEndpoint = rpcEndpoint params\<rparr>"

definition deployERC20TokenViaAPI ::
  "(string \<Rightarrow> DeployRequestBody \<Rightarrow> thrown + Response) \<Rightarrow> DeployApiParams
     \<Rightarrow> thrown + DeployTokenResult" where
  "deployERC20TokenViaAPI fetch params =
     (case fetch (request_url params) (request_body params) of
        Inl err \<Rightarrow> Inl err
      | Inr response \<Rightarrow>
          if \<not> ok response then
            let errorData_error =
                  (case json response of Inl _ \<Rightarrow> Some ''Unknown error'' | Inr b \<Rightarrow> r_error b)
            in Inl (ThrowError (Error (or_else errorData_error
                 (''Deployment failed with status '' @ nat_to_string (status response)))))
          else
            (case json response of
               Inl err \<Rightarrow> Inl err
             | Inr result \<Rightarrow>
                 Inr \<lparr>tokenAddress = r_tokenAddress result,
                      txHash = or_else (r_txHash result) ''0x'',
                      success = r_success result,
                      deployOutput = r_deployOutput result,
                      initOutput = r_initOutput result,
                      registerOutput = r_registerOutput result\<rparr>))"

text \<open>\<open>String.prototype.toLowerCase\<close> on the ASCII letters; an address is a hex string.\<close>

definition lower_char :: "char \<Rightarrow> char" where
  "lower_char c =
     (if 65 \<le> (of_char c :: nat) \<and> (of_char c :: nat) \<le> 90 then char_of (of_char c + 32 :: nat) else c)"

definition toLowerCase :: "string \<Rightarrow> string" where
  "toLowerCase s = map lower_char s"

text \<open>
  \<open>isTokenRegistered\<close>. The parameter is the factory's read \<open>getAllDeployedTokens\<close> for a
  factory address behind an RPC endpoint; building the provider and the contract object
  does not fail.
\<close>

definition isTokenRegistered ::
  "(Address \<Rightarrow> string \<Rightarrow> thrown + string list) \<Rightarrow> Address \<Rightarrow> Address \<Rightarrow> string \<Rightarrow> thrown + bool" where
  "isTokenRegistered getAllDeployedTokens token factory rpc =
     (case getAllDeployedTokens factory rpc of
        Inr allTokens \<Rightarrow>
          Inr (list_ex (\<lambda>addr. toLowerCase addr = toLowerCase token) allTokens)
      | Inl _ \<Rightarrow> Inr False)"

text \<open>
  Two strings are equal under case-insensitive comparison when they have the same length
  and, position by position, the same character or the two cases of one letter.
\<close>

definition is_upper :: "char \<Rightarrow> bool" where
  "is_upper c = (65 \<le> (of_char c :: nat) \<and> (of_char c :: nat) \<le> 90)"

definition same_letter :: "char \<Rightarrow> char \<Rightarrow> bool" where
  "same_letter x y =
     (x = y \<or> (is_upper x \<and> of_char y = (of_char x + 32 :: nat))
            \<or> (is_upper y \<and> of_char x = (of_char y + 32 :: nat)))"

definition equal_ignoring_case :: "string \<Rightarrow> string \<Rightarrow> bool" where
  "equal_ignoring_case a b = list_all2 same_letter a b"

section \<open>hooks/useERC20Deploy.ts\<close>

datatype DeploymentState =
    DeployIdle
  | Deploying
  | Activating
  | Initializing
  | Registering
  | DeploySuccess DeployTokenResult
  | DeployError js_error

text \<open>The options the deployment hook reads.\<close>

record UseERC20DeployOptions =
  deploy_network :: SupportedNetwork
  deploy_privateKey :: "string option"
  deploy_rpcEndpoint :: "string option"
  deploy_deploymentApiUrl :: "string option"

datatype deploy_event =
    SetDeploymentState DeploymentState
  | SetDeployError "js_error option"
  | Fetch string DeployRequestBody

fun is_fetch :: "deploy_event \<Rightarrow> bool" where
  "is_fetch (Fetch _ _) = True"
| "is_fetch _ = False"

record deploy_state =
  deploymentState :: DeploymentState
  deploy_error :: "js_error option"
  deploy_trace :: "deploy_event list"

definition initial_deploy_state :: deploy_state where
  "initial_deploy_state = \<lparr>deploymentState = DeployIdle, deploy_error = None, deploy_trace = []\<rparr>"

definition setDeploymentState :: "DeploymentState \<Rightarrow> deploy_state \<Rightarrow> deploy_state" where
  "setDeploymentState v s =
     s\<lparr>deploymentState := v, deploy_trace := deploy_trace s @ [SetDeploymentState v]\<rparr>"

definition setDeployError :: "js_error option \<Rightarrow> deploy_state \<Rightarrow> deploy_state" where
  "setDeployError v s = s\<lparr>deploy_error := v, deploy_trace := deploy_trace s @ [SetDeployError v]\<rparr>"

definition DEFAULT_DEPLOYMENT_API_URL :: string where
  "DEFAULT_DEPLOYMENT_API_URL = ''http://localhost:4000''"

text \<open>The object literal \<open>deployToken\<close> hands to \<open>deployERC20TokenViaAPI\<close>.\<close>

definition api_params :: "UseERC20DeployOptions \<Rightarrow> string \<Rightarrow> DeployTokenParams \<Rightarrow> DeployApiParams" where
  "api_params opts pk params =
     \<lparr>token_name = token_name params, token_symbol = token_symbol params,
      initialSupply = initialSupply params,
      factoryAddress =
        Some (or_else (factoryAddress params) (getFactoryAddress (deploy_network opts))),
      privateKey = pk,
      rpcEndpoint = or_else (deploy_rpcEndpoint opts) (getRpcEndpoint (deploy_network opts)),
      deploymentApiUrl =
        (case deploy_deploymentApiUrl opts of None \<Rightarrow> DEFAULT_DEPLOYMENT_API_URL | Some u \<Rightarrow> u)\<rparr>"

definition deployToken ::
  "(string \<Rightarrow> DeployRequestBody \<Rightarrow> thrown + Response) \<Rightarrow> UseERC20DeployOptions
     \<Rightarrow> DeployTokenParams \<Rightarrow> deploy_state \<Rightarrow> (thrown + DeployTokenResult) \<times> deploy_state" where
  "deployToken fetch opts params s =
     (if \<not> truthy (deploy_privateKey opts)
      then (Inl (ThrowError (Error ''Private key is required for deployment'')), s)
      else
        let pk = or_else (deploy_privateKey opts) [];
            s1 = setDeploymentState Deploying (setDeployError None s);
            p = api_params opts pk params;
            s2 = s1\<lparr>deploy_trace := deploy_trace s1 @ [Fetch (request_url p) (request_body p)]\<rparr>
        in (case deployERC20TokenViaAPI fetch p of
              Inr result \<Rightarrow> (Inr result, setDeploymentState (DeploySuccess result) s2)
            | Inl err \<Rightarrow>
                let e = to_Error err
                in (Inl (ThrowError e), setDeploymentState (DeployError e) (setDeployError (Some e) s2))))"

definition reset :: "deploy_state \<Rightarrow> deploy_state" where
  "reset s = setDeployError None (setDeploymentState DeployIdle s)"

definition isDeploying :: "deploy_state \<Rightarrow> bool" where
  "isDeploying s =
     (deploymentState s = Deploying \<or> deploymentState s = Activating \<or>
      deploymentState s = Initializing \<or> deploymentState s = Registering)"

section \<open>The course of a write operation\<close>

text \<open>
  What a run of a write operation has done to the transaction cell: the states it was set
  to, in order, after those set before the run; the state it is left in; the error cell;
  and what the caller gets.
\<close>

definition tx_failed ::
  "js_error \<Rightarrow> TransactionState list \<Rightarrow> hook_state \<Rightarrow> (thrown + Hash) \<times> hook_state \<Rightarrow> bool" where
  "tx_failed e before s out =
     (fst out = Inl (ThrowError e)
      \<and> tx_states (trace (snd out)) = tx_states (trace s) @ before @ [TxError e]
      \<and> txState (snd out) = TxError e
      \<and> error (snd out) = Some e)"

definition tx_succeeded :: "Hash \<Rightarrow> hook_state \<Rightarrow> (thrown + Hash) \<times> hook_state \<Rightarrow> bool" where
  "tx_succeeded hash s out =
     (fst out = Inr hash
      \<and> tx_states (trace (snd out)) =
          tx_states (trace s) @ [TxPending, TxConfirming hash, TxSuccess hash]
      \<and> txState (snd out) = TxSuccess hash
      \<and> error (snd out) = None)"

text \<open>
  The normalised error of a thrown value: a thrown \<open>Error\<close> is that error itself, and any
  other thrown value gives a new \<open>Error\<close> whose message is the value's text.
\<close>

fun normalized_error :: "thrown \<Rightarrow> js_error" where
  "normalized_error (ThrowError e) = e"
| "normalized_error (ThrowValue v) = Error v"

text \<open>
  The course the three gateway steps prescribe: a rejected simulation or submission fails
  the operation from \<open>pending\<close>, a rejected wait fails it from \<open>confirming\<close>, and three
  fulfilled steps take it through \<open>pending\<close>, \<open>confirming\<close> and \<open>success\<close> with the hash
  that the submission returned.
\<close>

definition tx_outcome ::
  "PublicClient \<Rightarrow> WalletClient \<Rightarrow> Address \<Rightarrow> string \<Rightarrow> arg list \<Rightarrow> hook_state
     \<Rightarrow> (thrown + Hash) \<times> hook_state \<Rightarrow> bool" where
  "tx_outcome pc wc ca fn args s out =
     (case simulateContract pc ca fn args (account wc) of
        Inl err \<Rightarrow> tx_failed (normalized_error err) [TxPending] s out
      | Inr request \<Rightarrow>
          (case writeContract wc request of
             Inl err \<Rightarrow> tx_failed (normalized_error err) [TxPending] s out
           | Inr hash \<Rightarrow>
               (case waitForTransactionReceipt pc hash of
                  Inl err \<Rightarrow> tx_failed (normalized_error err) [TxPending, TxConfirming hash] s out
                | Inr _ \<Rightarrow> tx_succeeded hash s out)))"

text \<open>A refetch leaves the transaction cell, the error cell and the transaction states of the trace alone.\<close>

definition keeps_tx :: "(hook_state \<Rightarrow> hook_state) \<Rightarrow> bool" where
  "keeps_tx R = (\<forall>t. txState (R t) = txState t \<and> error (R t) = error t
                    \<and> tx_states (trace (R t)) = tx_states (trace t))"

section \<open>Example gateways\<close>

text \<open>Concrete clients and options, on which the properties below are run.\<close>

definition example_publicClient :: PublicClient where
  "example_publicClient =
     \<lparr>read_name = (\<lambda>_. Inr ''My Token''), read_symbol = (\<lambda>_. Inr ''MTK''),
      read_decimals = (\<lambda>_. Inr 18), read_totalSupply = (\<lambda>_. Inr 1000000000000000000000),
      read_owner = (\<lambda>_. Inr ''0x00000000000000000000000000000000000000aa''),
      read_paused = (\<lambda>_. Inr False),
      read_balanceOf = (\<lambda>_ _. Inr 1500000000000000000),
      read_allowance = (\<lambda>_ _ _. Inr 250000000000000000),
      simulateContract = (\<lambda>a f args acct. Inr (Request a f args acct)),
      waitForTransactionReceipt = (\<lambda>_. Inr ())\<rparr>"

definition example_walletClient :: WalletClient where
  "example_walletClient =
     \<lparr>account = Some ''0x00000000000000000000000000000000000000aa'',
      writeContract = (\<lambda>_. Inr ''0xfeed'')\<rparr>"

text \<open>
  Clients whose steps reject: a simulation that throws a value that is no \<open>Error\<close>, a
  wallet that throws an \<open>Error\<close>, and a wait for the receipt that throws an \<open>Error\<close>.
\<close>

definition reverting_publicClient :: PublicClient where
  "reverting_publicClient =
     example_publicClient\<lparr>simulateContract := (\<lambda>a f args acct. Inl (ThrowValue ''execution reverted''))\<rparr>"

definition refusing_walletClient :: WalletClient where
  "refusing_walletClient =
     example_walletClient\<lparr>writeContract := (\<lambda>_. Inl (ThrowError (Error ''User rejected the request'')))\<rparr>"

definition timing_out_publicClient :: PublicClient where
  "timing_out_publicClient =
     example_publicClient\<lparr>waitForTransactionReceipt :=
       (\<lambda>_. Inl (ThrowError (Error ''Timed out while waiting for transaction'')))\<rparr>"

text \<open>The rounding of over-long fractions, for amounts that have none.\<close>

definition unused_mathRound :: "string \<Rightarrow> nat" where
  "unused_mathRound numeral_text = 0"

definition example_options :: UseERC20InteractionsOptions where
  "example_options =
     \<lparr>contractAddress = ''0x00000000000000000000000000000000000000cc'',
      network = ArbitrumSepolia,
      publicClient = Some example_publicClient,
      walletClient = Some example_walletClient,
      userAddress = Some ''0x00000000000000000000000000000000000000aa''\<rparr>"

definition reverting_options :: UseERC20InteractionsOptions where
  "reverting_options = example_options\<lparr>publicClient := Some reverting_publicClient\<rparr>"

definition refusing_options :: UseERC20InteractionsOptions where
  "refusing_options = example_options\<lparr>walletClient := Some refusing_walletClient\<rparr>"

definition timing_out_options :: UseERC20InteractionsOptions where
  "timing_out_options = example_options\<lparr>publicClient := Some timing_out_publicClient\<rparr>"

definition example_ethers :: Ethers where
  "example_ethers =
     \<lparr>new_Wallet = (\<lambda>_ _. Inr ()),
      contract_name = (\<lambda>_ _. Inr ''My Token''), contract_symbol = (\<lambda>_ _. Inr ''MTK''),
      contract_decimals = (\<lambda>_ _. Inr 18),
      contract_totalSupply = (\<lambda>_ _. Inr 1000000000000000000000),
      contract_owner = (\<lambda>_ _. Inr ''0x00000000000000000000000000000000000000aa''),
      contract_paused = (\<lambda>_ _. Inr False),
      contract_balanceOf = (\<lambda>_ _ _. Inr 1500000000000000000),
      contract_allowance = (\<lambda>_ _ _ _. Inr 250000000000000000),
      contract_send = (\<lambda>_ _ _ _ _. Inr (ContractTransactionResponse ''0xfeed'')),
      tx_wait = (\<lambda>_. Inr ''0xfeed'')\<rparr>"

definition example_deploy_options :: UseERC20DeployOptions where
  "example_deploy_options =
     \<lparr>deploy_network = ArbitrumSepolia, deploy_privateKey = Some ''0x01'',
      deploy_rpcEndpoint = None, deploy_deploymentApiUrl = None\<rparr>"

definition example_params :: DeployTokenParams where
  "example_params =
     \<lparr>token_name = ''My Token'', token_symbol = ''MTK'', initialSupply = ''1000'',
      factoryAddress = None\<rparr>"

text \<open>A deployment gateway that answers every request with one response.\<close>

definition respond_with :: "Response \<Rightarrow> string \<Rightarrow> DeployRequestBody \<Rightarrow> thrown + Response" where
  "respond_with response url body = Inr response"

definition example_body :: ResponseBody where
  "example_body =
     \<lparr>r_error = None,
      r_tokenAddress = Some ''0x00000000000000000000000000000000000000dd'',
      r_txHash = Some ''0xbeef'', r_success = Some True,
      r_deployOutput = Some ''deployed'', r_initOutput = Some ''initialized'',
      r_registerOutput = None\<rparr>"

definition example_fetch :: "string \<Rightarrow> DeployRequestBody \<Rightarrow> thrown + Response" where
  "example_fetch = respond_with \<lparr>status = 200, json = Inr example_body\<rparr>"

definition error_body :: "string \<Rightarrow> ResponseBody" where
  "error_body msg =
     \<lparr>r_error = Some msg, r_tokenAddress = None, r_txHash = None, r_success = None,
      r_deployOutput = None, r_initOutput = None, r_registerOutput = None\<rparr>"

definition no_hash_body :: ResponseBody where
  "no_hash_body =
     \<lparr>r_error = None,
      r_tokenAddress = Some ''0x00000000000000000000000000000000000000dd'',
      r_txHash = None, r_success = Some True,
      r_deployOutput = Some ''deployed'', r_initOutput = None, r_registerOutput = None\<rparr>"

definition example_api_params :: DeployApiParams where
  "example_api_params = api_params example_deploy_options ''0x01'' example_params"

definition registered_tokens :: "Address \<Rightarrow> string \<Rightarrow> thrown + string list" where
  "registered_tokens factory rpc =
     Inr [''0x00000000000000000000000000000000000000AA'',
          ''0x00000000000000000000000000000000000000Dd'']"

definition failing_read :: "Address \<Rightarrow> string \<Rightarrow> thrown + string list" where
  "failing_read factory rpc = Inl (ThrowError (Error ''could not detect network''))"

definition six_decimals_client :: PublicClient where
  "six_decimals_client = example_publicClient\<lparr>read_decimals := (\<lambda>_. Inr 6)\<rparr>"

definition six_decimals_options :: UseERC20InteractionsOptions where
  "six_decimals_options = example_options\<lparr>publicClient := Some six_decimals_client\<rparr>"

definition zero_balance_options :: UseERC20InteractionsOptions where
  "zero_balance_options =
     example_options\<lparr>publicClient := Some (six_decimals_client\<lparr>read_balanceOf := (\<lambda>_ _. Inr 0)\<rparr>)\<rparr>"

definition example_tokenInfo :: "nat \<Rightarrow> string \<Rightarrow> TokenInfo" where
  "example_tokenInfo d text =
     \<lparr>address = ''0x00000000000000000000000000000000000000cc'', name = ''My Token'',
      symbol = ''MTK'', decimals = d, totalSupply = 1000000000000000000000,
      formattedTotalSupply = text,
      owner = ''0x00000000000000000000000000000000000000aa'', paused = False\<rparr>"

section \<open>Digit strings and the numbers they denote\<close>

lemma digit_table:
  "list_all (\<lambda>n. digit_val (digit_char n) = n \<and> is_digit (digit_char n)) [0..<10]"
  by (simp add: upt_rec digit_char_def digit_val_def is_digit_def)

lemma digit_val_digit_char:
  assumes "n < 10" shows "digit_val (digit_char n) = n"
  using digit_table assms unfolding list_all_iff by simp

lemma is_digit_digit_char:
  assumes "n < 10" shows "is_digit (digit_char n)"
  using digit_table assms unfolding list_all_iff by simp

lemma foldl_digits:
  "foldl (\<lambda>a c. 10 * a + digit_val c) acc b =
     acc * 10 ^ length b + foldl (\<lambda>a c. 10 * a + digit_val c) 0 b"
proof (induction b arbitrary: acc)
  case Nil
  show ?case by simp
next
  case (Cons c b)
  have "foldl (\<lambda>a c. 10 * a + digit_val c) (10 * acc + digit_val c) b =
          (10 * acc + digit_val c) * 10 ^ length b + foldl (\<lambda>a c. 10 * a + digit_val c) 0 b"
    by (rule Cons.IH)
  moreover have "foldl (\<lambda>a c. 10 * a + digit_val c) (digit_val c) b =
          digit_val c * 10 ^ length b + foldl (\<lambda>a c. 10 * a + digit_val c) 0 b"
    by (rule Cons.IH)
  ultimately show ?case
    by (simp add: algebra_simps)
qed

lemma digits_val_append: "digits_val (a @ b) = digits_val a * 10 ^ length b + digits_val b"
  unfolding digits_val_def foldl_append by (rule foldl_digits)

lemma digits_val_single: "digits_val [c] = digit_val c"
  by (simp add: digits_val_def)

lemma digits_val_Nil: "digits_val [] = 0"
  by (simp add: digits_val_def)

lemma digits_val_nat_to_string: "digits_val (nat_to_string n) = n"
proof (induction n rule: nat_to_string.induct)
  case (1 n)
  show ?case
  proof (cases "n < 10")
    case True
    then show ?thesis
      by (simp add: nat_to_string.simps[of n] digits_val_single digit_val_digit_char)
  next
    case False
    then have "digits_val (nat_to_string (n div 10)) = n div 10"
      using 1 by simp
    with False show ?thesis
      by (simp add: nat_to_string.simps[of n] digits_val_append digits_val_single digit_val_digit_char)
  qed
qed

lemma digits_nat_to_string: "c \<in> set (nat_to_string n) \<Longrightarrow> is_digit c"
proof (induction n rule: nat_to_string.induct)
  case (1 n)
  show ?case
  proof (cases "n < 10")
    case True
    with 1(2) show ?thesis
      by (simp add: nat_to_string.simps[of n] is_digit_digit_char)
  next
    case False
    with 1 show ?thesis
      by (auto simp add: nat_to_string.simps[of n] is_digit_digit_char)
  qed
qed

lemma nat_to_string_nonempty: "nat_to_string n \<noteq> []"
  by (simp add: nat_to_string.simps[of n])

lemma digits_val_zeros: "digits_val (replicate k CHR ''0'') = 0"
  by (induction k) (simp_all add: digits_val_def digit_val_def)

lemma takeWhile_zeros:
  "\<exists>k. takeWhile (\<lambda>c. c = CHR ''0'') xs = replicate k CHR ''0''"
proof (induction xs)
  case Nil
  show ?case by simp
next
  case (Cons x xs)
  then obtain k where k: "takeWhile (\<lambda>c. c = CHR ''0'') xs = replicate k CHR ''0''" by blast
  show ?case
  proof (cases "x = CHR ''0''")
    case True
    then have "takeWhile (\<lambda>c. c = CHR ''0'') (x # xs) = replicate (Suc k) CHR ''0''"
      using k by simp
    then show ?thesis by blast
  next
    case False
    then have "takeWhile (\<lambda>c. c = CHR ''0'') (x # xs) = replicate 0 CHR ''0''" by simp
    then show ?thesis by blast
  qed
qed

lemma strip_trailing_zeros_decomp:
  "s = strip_trailing_zeros s @ replicate (length s - length (strip_trailing_zeros s)) CHR ''0''"
proof -
  let ?P = "\<lambda>c. c = CHR ''0''"
  obtain k where k: "takeWhile ?P (rev s) = replicate k CHR ''0''"
    using takeWhile_zeros by blast
  have "rev s = takeWhile ?P (rev s) @ dropWhile ?P (rev s)" by simp
  then have "rev s = replicate k CHR ''0'' @ dropWhile ?P (rev s)"
    unfolding k .
  then have "rev (rev s) = rev (replicate k CHR ''0'' @ dropWhile ?P (rev s))"
    by (rule arg_cong)
  then have eq: "s = strip_trailing_zeros s @ replicate k CHR ''0''"
    by (simp add: strip_trailing_zeros_def)
  then have "length s = length (strip_trailing_zeros s) + k"
    by (metis length_append length_replicate)
  then have "k = length s - length (strip_trailing_zeros s)" by simp
  with eq show ?thesis by simp
qed

lemma strip_trailing_zeros_length: "length (strip_trailing_zeros s) \<le> length s"
  by (simp add: strip_trailing_zeros_def length_dropWhile_le[of _ "rev s", simplified])

lemma digits_val_strip:
  "digits_val s = digits_val (strip_trailing_zeros s) * 10 ^ (length s - length (strip_trailing_zeros s))"
proof -
  let ?k = "length s - length (strip_trailing_zeros s)"
  have "digits_val s = digits_val (strip_trailing_zeros s @ replicate ?k CHR ''0'')"
    using strip_trailing_zeros_decomp[of s] by simp
  then show ?thesis
    by (simp add: digits_val_append digits_val_zeros)
qed

lemma is_digit_not_point: "is_digit c \<Longrightarrow> c \<noteq> CHR ''.''"
  by (auto simp: is_digit_def)

lemma is_digit_not_minus: "is_digit c \<Longrightarrow> c \<noteq> CHR ''-''"
  by (auto simp: is_digit_def)

lemma is_digit_zero: "is_digit CHR ''0''"
  by (simp add: is_digit_def)

lemma unsigned_value_whole:
  assumes "\<forall>c \<in> set w. is_digit c"
  shows "unsigned_value w = of_nat (digits_val w)"
proof -
  have "\<forall>c \<in> set w. c \<noteq> CHR ''.''" using assms is_digit_not_point by blast
  then have tw: "takeWhile (\<lambda>c. c \<noteq> CHR ''.'') w = w"
    and dw: "dropWhile (\<lambda>c. c \<noteq> CHR ''.'') w = []"
    by simp_all
  show ?thesis
    unfolding unsigned_value_def Let_def tw dw by (simp add: digits_val_Nil)
qed

lemma unsigned_value_point:
  assumes "\<forall>c \<in> set w. is_digit c"
  shows "unsigned_value (w @ CHR ''.'' # f) = of_nat (digits_val w) + of_nat (digits_val f) / 10 ^ length f"
proof -
  have "\<forall>c \<in> set w. c \<noteq> CHR ''.''" using assms is_digit_not_point by blast
  then have tw: "takeWhile (\<lambda>c. c \<noteq> CHR ''.'') (w @ CHR ''.'' # f) = w"
    and dw: "dropWhile (\<lambda>c. c \<noteq> CHR ''.'') (w @ CHR ''.'' # f) = CHR ''.'' # f"
    by (simp_all add: takeWhile_append2 dropWhile_append2)
  show ?thesis
    unfolding unsigned_value_def Let_def tw dw by simp
qed

lemma decimal_value_minus: "decimal_value (CHR ''-'' # s) = - unsigned_value s"
  by (simp add: decimal_value_def)

lemma decimal_value_digit:
  assumes "is_digit c"
  shows "decimal_value (c # s) = unsigned_value (c # s)"
  using is_digit_not_minus[OF assms] by (simp add: decimal_value_def)


lemma padStart0_digits:
  assumes "\<forall>c \<in> set s. is_digit c"
  shows "\<forall>c \<in> set (padStart0 n s). is_digit c"
  using assms by (auto simp: padStart0_def is_digit_zero)

lemma padStart0_val: "digits_val (padStart0 n s) = digits_val s"
  by (simp add: padStart0_def digits_val_append digits_val_zeros)

lemma padStart0_length: "n \<le> length (padStart0 n s)"
  by (simp add: padStart0_def)

lemma decimal_fraction_arith:
  assumes "d = l + k"
  shows "(of_nat (a * 10 ^ d + b * 10 ^ k) :: rat) / 10 ^ d = of_nat a + of_nat b / 10 ^ l"
  unfolding assms by (simp add: power_add field_simps)

lemma unsigned_value_split:
  assumes digs: "\<forall>c \<in> set display. is_digit c" and len: "d \<le> length display"
  shows "unsigned_value
           ((if take (length display - d) display = [] then ''0'' else take (length display - d) display)
            @ (if strip_trailing_zeros (drop (length display - d) display) = [] then []
               else CHR ''.'' # strip_trailing_zeros (drop (length display - d) display)))
         = of_nat (digits_val display) / 10 ^ d"
proof -
  let ?i = "take (length display - d) display"
  let ?f = "drop (length display - d) display"
  let ?f' = "strip_trailing_zeros ?f"
  let ?w = "if ?i = [] then ''0'' else ?i"
  let ?k = "length ?f - length ?f'"
  have lf: "length ?f = d" using len by simp
  have wd: "\<forall>c \<in> set ?w. is_digit c"
    using digs by (auto simp: is_digit_zero dest: in_set_takeD)
  have wv: "digits_val ?w = digits_val ?i"
    by (simp add: digits_val_def digit_val_def)
  have "display = ?i @ ?f" by simp
  then have "digits_val display = digits_val ?i * 10 ^ d + digits_val ?f"
    using digits_val_append[of ?i ?f] lf by simp
  moreover have fv: "digits_val ?f = digits_val ?f' * 10 ^ ?k"
    by (rule digits_val_strip)
  ultimately have dv: "digits_val display = digits_val ?i * 10 ^ d + digits_val ?f' * 10 ^ ?k"
    by simp
  have kd: "length ?f' + ?k = d"
    using strip_trailing_zeros_length[of ?f] lf by simp
  have body: "unsigned_value (?w @ (if ?f' = [] then [] else CHR ''.'' # ?f'))
                = of_nat (digits_val ?w) + of_nat (digits_val ?f') / 10 ^ length ?f'"
  proof (cases "?f' = []")
    case True
    then show ?thesis
      using unsigned_value_whole[OF wd] by (simp add: digits_val_Nil)
  next
    case False
    then show ?thesis
      using unsigned_value_point[OF wd, of ?f'] by simp
  qed
  have "of_nat (digits_val display) / (10::rat) ^ d
          = of_nat (digits_val ?i) + of_nat (digits_val ?f') / 10 ^ length ?f'"
    unfolding dv by (rule decimal_fraction_arith) (rule kd[symmetric])
  with body wv show ?thesis by simp
qed

lemma formatUnits_value: "decimal_value (formatUnits v d) = of_int v / 10 ^ d"
proof -
  let ?display = "padStart0 d (nat_to_string (nat \<bar>v\<bar>))"
  let ?i = "take (length ?display - d) ?display"
  let ?f' = "strip_trailing_zeros (drop (length ?display - d) ?display)"
  let ?body = "(if ?i = [] then ''0'' else ?i) @ (if ?f' = [] then [] else CHR ''.'' # ?f')"
  have digs: "\<forall>c \<in> set ?display. is_digit c"
    by (rule padStart0_digits) (simp add: digits_nat_to_string)
  have bv: "unsigned_value ?body = of_nat (nat \<bar>v\<bar>) / 10 ^ d"
    using unsigned_value_split[OF digs padStart0_length]
    by (simp add: padStart0_val digits_val_nat_to_string)
  have fmt: "formatUnits v d = (if v < 0 then ''-'' else []) @ ?body"
    by (simp add: formatUnits_def Let_def)
  show ?thesis
  proof (cases "v < 0")
    case True
    then have "decimal_value (formatUnits v d) = - unsigned_value ?body"
      unfolding fmt by (simp add: decimal_value_minus)
    with True bv show ?thesis by simp
  next
    case False
    obtain c rest where cr: "(if ?i = [] then ''0'' else ?i) = c # rest"
      by (cases "(if ?i = [] then ''0'' else ?i)") (auto split: if_splits)
    have "c \<in> set (if ?i = [] then ''0'' else ?i)" using cr by simp
    then have "is_digit c"
      using digs by (auto simp: is_digit_zero split: if_splits dest: in_set_takeD)
    then have "decimal_value ?body = unsigned_value ?body"
      using decimal_value_digit[of c] cr by simp
    with False bv show ?thesis unfolding fmt by simp
  qed
qed


lemma digits_val_dropWhile_zeros:
  "digits_val (dropWhile (\<lambda>c. c = CHR ''0'') s) = digits_val s"
proof -
  let ?P = "\<lambda>c. c = CHR ''0''"
  obtain k where k: "takeWhile ?P s = replicate k CHR ''0''"
    using takeWhile_zeros by blast
  have "digits_val s = digits_val (takeWhile ?P s @ dropWhile ?P s)" by simp
  also have "\<dots> = digits_val (replicate k CHR ''0'' @ dropWhile ?P s)"
    unfolding k ..
  also have "\<dots> = digits_val (dropWhile ?P s)"
    by (simp add: digits_val_append digits_val_zeros)
  finally show ?thesis by simp
qed

lemma digits_val_zero_char: "digits_val ''0'' = 0"
  by (simp add: digits_val_def digit_val_def)

lemma trim_leading_zeros_val: "digits_val (trim_leading_zeros s) = digits_val s"
proof (cases "dropWhile (\<lambda>c. c = CHR ''0'') s = []")
  case True
  have "digits_val s = digits_val (dropWhile (\<lambda>c. c = CHR ''0'') s)"
    by (rule digits_val_dropWhile_zeros[symmetric])
  then have "digits_val s = 0"
    unfolding True by (simp add: digits_val_Nil)
  with True show ?thesis
    by (simp add: trim_leading_zeros_def digits_val_zero_char)
next
  case False
  then have "trim_leading_zeros s = dropWhile (\<lambda>c. c = CHR ''0'') s"
    unfolding trim_leading_zeros_def Let_def by (rule if_not_P)
  then show ?thesis
    by (simp only: digits_val_dropWhile_zeros)
qed

lemma trim_leading_zeros_digits:
  assumes "\<forall>c \<in> set s. is_digit c"
  shows "\<forall>c \<in> set (trim_leading_zeros s). is_digit c"
  using assms by (auto simp: trim_leading_zeros_def Let_def is_digit_zero dest: set_dropWhileD)

lemma trim_leading_zeros_nonempty: "trim_leading_zeros s \<noteq> []"
  by (simp add: trim_leading_zeros_def Let_def)

lemma trim_trailing_zeros_fraction:
  "(of_nat (digits_val (trim_trailing_zeros f)) :: rat) / 10 ^ length (trim_trailing_zeros f)
     = of_nat (digits_val f) / 10 ^ length f"
proof (cases "strip_trailing_zeros f = []")
  case True
  then have "digits_val f = 0"
    using digits_val_strip[of f] by (simp add: digits_val_Nil)
  with True show ?thesis
    by (simp add: trim_trailing_zeros_def digits_val_zero_char)
next
  case False
  let ?f' = "strip_trailing_zeros f"
  let ?k = "length f - length ?f'"
  have len: "length f = length ?f' + ?k"
    using strip_trailing_zeros_length[of f] by simp
  have "(of_nat (digits_val f) :: rat) / 10 ^ length f
          = of_nat (0 * 10 ^ length f + digits_val ?f' * 10 ^ ?k) / 10 ^ length f"
    using digits_val_strip[of f] by simp
  also have "\<dots> = of_nat 0 + of_nat (digits_val ?f') / 10 ^ length ?f'"
    by (rule decimal_fraction_arith) (rule len)
  finally show ?thesis
    using False by (simp add: trim_trailing_zeros_def)
qed

lemma whole_fraction_arith:
  "(of_nat (a * 10 ^ d + b) :: rat) / 10 ^ d = of_nat a + of_nat b / 10 ^ d"
  by (simp add: add_divide_distrib)

lemma signed_value:
  assumes "body = c # rest" and "is_digit c"
    and "unsigned_value body = of_nat (nat \<bar>v\<bar>) / 10 ^ d"
  shows "decimal_value ((if v < 0 then ''-'' else []) @ body) = of_int v / 10 ^ d"
proof (cases "v < 0")
  case True
  then have "decimal_value ((if v < 0 then ''-'' else []) @ body) = - unsigned_value body"
    by (simp add: decimal_value_minus)
  with True assms(3) show ?thesis by simp
next
  case False
  have "decimal_value body = unsigned_value body"
    unfolding assms(1) by (rule decimal_value_digit) (rule assms(2))
  with False assms(3) show ?thesis by simp
qed

lemma nonempty_digits_head:
  assumes "s \<noteq> []" and "\<forall>c \<in> set s. is_digit c"
  obtains c rest where "s = c # rest" and "is_digit c"
  using assms by (cases s) auto

lemma ethers_formatUnits_value: "decimal_value (ethers_formatUnits v d) = of_int v / 10 ^ d"
proof (cases "d = 0")
  case True
  let ?str = "nat_to_string (nat \<bar>v\<bar>)"
  have sd: "\<forall>c \<in> set ?str. is_digit c"
    by (simp add: digits_nat_to_string)
  obtain c rest where cr: "?str = c # rest" and cd: "is_digit c"
    using nonempty_digits_head[OF nat_to_string_nonempty sd] by blast
  have uv: "unsigned_value ?str = of_nat (nat \<bar>v\<bar>) / 10 ^ d"
    using unsigned_value_whole[OF sd] True by (simp add: digits_val_nat_to_string)
  have "ethers_formatUnits v d = (if v < 0 then ''-'' else []) @ ?str"
    using True by (simp add: ethers_formatUnits_def Let_def)
  then show ?thesis
    using signed_value[OF cr cd uv] by simp
next
  case False
  let ?str = "nat_to_string (nat \<bar>v\<bar>)"
  let ?padded = "padStart0 (Suc d) ?str"
  let ?index = "length ?padded - d"
  let ?w = "trim_leading_zeros (take ?index ?padded)"
  let ?f = "trim_trailing_zeros (drop ?index ?padded)"
  have sd: "\<forall>c \<in> set ?str. is_digit c"
    by (simp add: digits_nat_to_string)
  have pd: "\<forall>c \<in> set ?padded. is_digit c"
    by (rule padStart0_digits) (rule sd)
  have td: "\<forall>c \<in> set (take ?index ?padded). is_digit c"
    using pd in_set_takeD by fast
  have wd: "\<forall>c \<in> set ?w. is_digit c"
    by (rule trim_leading_zeros_digits) (rule td)
  obtain c rest where cr: "?w = c # rest" and cd: "is_digit c"
    using nonempty_digits_head[OF trim_leading_zeros_nonempty wd] by blast
  have plen: "Suc d \<le> length ?padded" by (rule padStart0_length)
  have lf: "length (drop ?index ?padded) = d" using plen by simp
  have "digits_val (take ?index ?padded @ drop ?index ?padded)
          = digits_val (take ?index ?padded) * 10 ^ length (drop ?index ?padded)
            + digits_val (drop ?index ?padded)"
    by (rule digits_val_append)
  then have "digits_val ?padded
               = digits_val (take ?index ?padded) * 10 ^ d + digits_val (drop ?index ?padded)"
    unfolding lf by simp
  then have pv: "nat \<bar>v\<bar>
               = digits_val (take ?index ?padded) * 10 ^ d + digits_val (drop ?index ?padded)"
    by (simp only: padStart0_val digits_val_nat_to_string)
  have "(of_nat (nat \<bar>v\<bar>) :: rat) / 10 ^ d
          = of_nat (digits_val (take ?index ?padded) * 10 ^ d
                    + digits_val (drop ?index ?padded)) / 10 ^ d"
    using pv by (rule arg_cong[where f = "\<lambda>n. (of_nat n :: rat) / 10 ^ d"])
  also have "\<dots> = of_nat (digits_val (take ?index ?padded))
                    + of_nat (digits_val (drop ?index ?padded)) / 10 ^ d"
    by (rule whole_fraction_arith)
  also have "\<dots> = of_nat (digits_val ?w) + of_nat (digits_val ?f) / 10 ^ length ?f"
    using trim_trailing_zeros_fraction[of "drop ?index ?padded"]
    unfolding lf trim_leading_zeros_val by (rule arg_cong2[where f = "(+)", OF refl, OF sym])
  also have "\<dots> = unsigned_value (?w @ CHR ''.'' # ?f)"
    by (rule unsigned_value_point[OF wd, symmetric])
  finally have uv: "unsigned_value ((?w @ CHR ''.'' # ?f)) = of_nat (nat \<bar>v\<bar>) / 10 ^ d"
    by (rule sym)
  have cr': "?w @ CHR ''.'' # ?f = c # (rest @ CHR ''.'' # ?f)"
    unfolding cr by simp
  have "ethers_formatUnits v d = (if v < 0 then ''-'' else []) @ (?w @ CHR ''.'' # ?f)"
    using False by (simp add: ethers_formatUnits_def Let_def)
  then show ?thesis
    using signed_value[OF cr' cd uv] by simp
qed

section \<open>Evaluating conversions\<close>

lemma replicate_numeral: "replicate (numeral k) x = x # replicate (pred_numeral k) x"
  by (simp add: numeral_eq_Suc)

lemma parseUnits_five_and_a_half: "parseUnits mathRound ''5.5'' 18 = Inr 5500000000000000000"
  by (simp add: parseUnits_def is_decimal_number_def is_digit_def padEnd0_def
        strip_trailing_zeros_def digits_val_def digit_val_def Let_def replicate_numeral)

lemma parseUnits_abc: "parseUnits mathRound ''abc'' 18 = Inl (InvalidDecimalNumberError ''abc'')"
proof -
  have "\<not> is_decimal_number ''abc''"
    by (simp add: is_decimal_number_def is_digit_def del: dropWhile_eq_Nil_conv)
  then show ?thesis
    by (simp add: parseUnits_def)
qed

lemma ethers_parseUnits_five_and_a_half: "ethers_parseUnits ''5.5'' 18 = Inr 5500000000000000000"
  by (simp add: ethers_parseUnits_def is_decimal_number_def is_digit_def padEnd0_def
        digits_val_def digit_val_def Let_def replicate_numeral)

lemma nat_to_string_numeral:
  "nat_to_string (numeral k) =
     (if numeral k < (10::nat) then [digit_char (numeral k)]
      else nat_to_string (numeral k div 10) @ [digit_char (numeral k mod 10)])"
  by (rule nat_to_string.simps)

lemma nat_to_string_0: "nat_to_string 0 = ''0''"
  by (simp add: nat_to_string.simps digit_char_def)

lemma nat_to_string_1: "nat_to_string (Suc 0) = ''1''"
  by (simp add: nat_to_string.simps digit_char_def)

lemmas eval_digits = nat_to_string_numeral nat_to_string_0 nat_to_string_1 digit_char_def
  padStart0_def strip_trailing_zeros_def replicate_numeral Let_def

lemma formatUnits_thousand: "formatUnits 1000000000000000000000 18 = ''1000''"
  by (simp add: formatUnits_def eval_digits)

lemma ethers_formatUnits_thousand: "ethers_formatUnits 1000000000000000000000 18 = ''1000.0''"
  by (simp add: ethers_formatUnits_def trim_leading_zeros_def trim_trailing_zeros_def eval_digits)

lemma formatUnits_zero: "formatUnits 0 d = ''0''"
  by (simp add: formatUnits_def eval_digits)

lemma formatUnits_one_and_a_half: "formatUnits 1500000000000000000 18 = ''1.5''"
  by (simp add: formatUnits_def eval_digits)

lemma formatUnits_quarter: "formatUnits 250000000000000000 18 = ''0.25''"
  by (simp add: formatUnits_def eval_digits)

lemma ethers_formatUnits_one_and_a_half: "ethers_formatUnits 1500000000000000000 18 = ''1.5''"
  by (simp add: ethers_formatUnits_def trim_leading_zeros_def trim_trailing_zeros_def eval_digits)

lemma ethers_formatUnits_quarter: "ethers_formatUnits 250000000000000000 18 = ''0.25''"
  by (simp add: ethers_formatUnits_def trim_leading_zeros_def trim_trailing_zeros_def eval_digits)

lemma formatUnits_thousand_six: "formatUnits 1000000000000000000000 6 = ''1000000000000000''"
  by (simp add: formatUnits_def eval_digits)

section \<open>Traces and state cells\<close>

lemma tx_states_append: "tx_states (a @ b) = tx_states a @ tx_states b"
  by (induction a rule: tx_states.induct) simp_all

lemma gateway_calls_append: "gateway_calls (a @ b) = gateway_calls a @ gateway_calls b"
  by (simp add: gateway_calls_def)

lemmas setters = setTokenInfo_def setBalance_def setTxState_def setError_def emit_def

section \<open>Read refresh without its parameters\<close>

text \<open>
  C7. When the balance refresh is invoked with no read client or no account address
  (absent, or the empty string, which is as falsy), the balance cell becomes \<open>Idle\<close>: the
  only thing the run does is that one \<open>setBalance\<close>. No read is sent to the gateway, and
  the error cell, the token-info cell and the transaction cell are left as they were; the
  function has no path that throws.
\<close>

theorem refetchBalance_without_account:
  assumes "publicClient opts = None \<or> userAddress opts = None \<or> userAddress opts = Some []"
  shows "balance (refetchBalance opts s) = Idle
       \<and> trace (refetchBalance opts s) = trace s @ [SetBalance Idle]
       \<and> gateway_calls (trace (refetchBalance opts s)) = gateway_calls (trace s)
       \<and> error (refetchBalance opts s) = error s
       \<and> tokenInfo (refetchBalance opts s) = tokenInfo s
       \<and> txState (refetchBalance opts s) = txState s"
proof -
  have "refetchBalance opts s = setBalance Idle s"
    using assms by (auto simp: refetchBalance_def split: option.splits)
  then show ?thesis
    by (simp add: setters gateway_calls_def)
qed

theorem refetchBalance_without_account_witness:
  "userAddress (example_options\<lparr>userAddress := None\<rparr>) = None
   \<and> balance (refetchBalance (example_options\<lparr>userAddress := None\<rparr>)
        (initial_state\<lparr>balance := Loading\<rparr>)) = Idle
   \<and> gateway_calls (trace (refetchBalance (example_options\<lparr>userAddress := None\<rparr>)
        (initial_state\<lparr>balance := Loading\<rparr>))) = []"
  using refetchBalance_without_account
          [of "example_options\<lparr>userAddress := None\<rparr>" "initial_state\<lparr>balance := Loading\<rparr>"]
  by (simp add: initial_state_def gateway_calls_def)

text \<open>
  C10. When the token-info refresh is invoked with no read client, it returns at once: the
  whole state of the hook, the token-info cell and the trace included, is what it was, so
  the cell goes neither to \<open>Idle\<close> nor to \<open>Loading\<close> and nothing is sent to the gateway. The
  balance refresh, in the same situation, does set its cell to \<open>Idle\<close>.
\<close>

theorem refetchTokenInfo_without_client:
  assumes "publicClient opts = None"
  shows "refetchTokenInfo opts s = s
       \<and> balance (refetchBalance opts s) = Idle"
  using assms by (simp add: refetchTokenInfo_def refetchBalance_def setters)

theorem refetchTokenInfo_without_client_witness:
  "publicClient (example_options\<lparr>publicClient := None\<rparr>) = None
   \<and> tokenInfo (refetchTokenInfo (example_options\<lparr>publicClient := None\<rparr>)
        (initial_state\<lparr>tokenInfo := Loading, balance := Loading\<rparr>)) = Loading
   \<and> trace (refetchTokenInfo (example_options\<lparr>publicClient := None\<rparr>)
        (initial_state\<lparr>tokenInfo := Loading, balance := Loading\<rparr>)) = []
   \<and> balance (refetchBalance (example_options\<lparr>publicClient := None\<rparr>)
        (initial_state\<lparr>tokenInfo := Loading, balance := Loading\<rparr>)) = Idle"
  using refetchTokenInfo_without_client
          [of "example_options\<lparr>publicClient := None\<rparr>"
              "initial_state\<lparr>tokenInfo := Loading, balance := Loading\<rparr>"]
  by (simp add: initial_state_def)

section \<open>Write operations\<close>

lemma to_Error_normalized: "to_Error err = normalized_error err"
  by (cases err) (simp_all add: to_Error_def)

lemma executeTransaction_outcome:
  assumes "walletClient opts = Some wc" and "publicClient opts = Some pc"
  shows "tx_outcome pc wc (contractAddress opts) fn args s (executeTransaction opts fn args s)"
  using assms
  by (simp add: tx_outcome_def tx_failed_def tx_succeeded_def executeTransaction_def
        tx_catch_def Let_def setters tx_states_append to_Error_normalized split: sum.splits)

text \<open>A refetch is its start followed by its settlement.\<close>

lemma refetchTokenInfo_phases:
  "refetchTokenInfo opts s = refetchTokenInfo_settle opts (refetchTokenInfo_start opts s)"
  by (simp add: refetchTokenInfo_def refetchTokenInfo_start_def refetchTokenInfo_settle_def
        Let_def split: option.splits)

lemma refetchBalance_phases:
  "refetchBalance opts s = refetchBalance_settle opts (refetchBalance_start opts s)"
  by (simp add: refetchBalance_def refetchBalance_start_def refetchBalance_settle_def
        Let_def setters split: option.splits sum.splits)

lemma keeps_tx_refetchBalance: "keeps_tx (refetchBalance opts)"
  by (simp add: keeps_tx_def refetchBalance_def Let_def setters tx_states_append
        split: option.splits sum.splits)

lemma keeps_tx_refetchTokenInfo: "keeps_tx (refetchTokenInfo opts)"
  by (simp add: keeps_tx_def refetchTokenInfo_def Let_def setters tx_states_append
        split: option.splits sum.splits)

lemma keeps_tx_refetch_both: "keeps_tx (refetch_both opts)"
  by (simp add: keeps_tx_def refetch_both_def refetchTokenInfo_start_def
        refetchTokenInfo_settle_def refetchBalance_start_def refetchBalance_settle_def
        Let_def setters tx_states_append split: option.splits sum.splits)

lemma keeps_tx_id: "keeps_tx (\<lambda>t. t)"
  by (simp add: keeps_tx_def)

lemma then_refetch_id: "then_refetch (\<lambda>t. t) out = out"
  by (simp add: then_refetch_def split: prod.splits sum.splits)

lemma run_write_via_executeTransaction:
  assumes "write_call mathRound op = Inr (fn, args)"
  shows "\<exists>R. keeps_tx R \<and>
           run_write mathRound opts op s = then_refetch R (executeTransaction opts fn args s)"
proof (cases op)
  case (Transfer to_addr amount)
  with assms show ?thesis
    by (auto simp: transfer_def await_def TOKEN_DECIMALS_def split: sum.splits
          intro!: exI[of _ "refetchBalance opts"] keeps_tx_refetchBalance)
next
  case (Approve spender amount)
  with assms show ?thesis
    by (auto simp: approve_def await_def TOKEN_DECIMALS_def then_refetch_id split: sum.splits
          intro!: exI[of _ "\<lambda>t. t"] keeps_tx_id)
next
  case (TransferFrom from_addr to_addr amount)
  with assms show ?thesis
    by (auto simp: transferFrom_def await_def TOKEN_DECIMALS_def split: sum.splits
          intro!: exI[of _ "refetchBalance opts"] keeps_tx_refetchBalance)
next
  case (Mint to_addr amount)
  with assms show ?thesis
    by (auto simp: mint_def await_def TOKEN_DECIMALS_def split: sum.splits
          intro!: exI[of _ "refetch_both opts"] keeps_tx_refetch_both)
next
  case (Burn amount)
  with assms show ?thesis
    by (auto simp: burn_def await_def TOKEN_DECIMALS_def split: sum.splits
          intro!: exI[of _ "refetch_both opts"] keeps_tx_refetch_both)
next
  case Pause
  with assms show ?thesis
    by (auto simp: pause_def intro!: exI[of _ "refetchTokenInfo opts"] keeps_tx_refetchTokenInfo)
next
  case Unpause
  with assms show ?thesis
    by (auto simp: unpause_def intro!: exI[of _ "refetchTokenInfo opts"] keeps_tx_refetchTokenInfo)
next
  case (TransferOwnership newOwner)
  with assms show ?thesis
    by (auto simp: transferOwnership_def
          intro!: exI[of _ "refetchTokenInfo opts"] keeps_tx_refetchTokenInfo)
qed

text \<open>
  An amount that \<open>parseUnits\<close> rejects ends the operation before \<open>executeTransaction\<close> is
  entered: the rejection is thrown and no cell is written.
\<close>

lemma run_write_rejected_amount:
  assumes "write_call mathRound op = Inl err"
  shows "run_write mathRound opts op s = (Inl err, s)"
  using assms
  by (cases op)
     (simp_all add: transfer_def approve_def transferFrom_def mint_def burn_def await_def
        TOKEN_DECIMALS_def split: sum.splits)

lemma tx_outcome_then_refetch:
  assumes "keeps_tx R" and "tx_outcome pc wc ca fn args s out"
  shows "tx_outcome pc wc ca fn args s (then_refetch R out)"
  using assms
  by (cases out; cases "fst out")
     (auto simp: tx_outcome_def tx_failed_def tx_succeeded_def then_refetch_def keeps_tx_def
        split: sum.splits)

text \<open>
  C1, as stated, fails for an operation that does not reach the three steps. A transfer
  of the amount \<open>abc\<close>, with both clients present, throws the rejection of \<open>parseUnits\<close>
  and leaves every cell as it was (here the \<open>success\<close> of an earlier transaction): the
  cell is set neither to \<open>pending\<close> nor to the error state. So does a \<open>pause\<close> with no
  wallet client.
\<close>

theorem rejected_amount_counterexample:
  "run_write unused_mathRound example_options
     (Transfer ''0x00000000000000000000000000000000000000bb'' ''abc'')
     (initial_state\<lparr>txState := TxSuccess ''0xfeed''\<rparr>)
     = (Inl (InvalidDecimalNumberError ''abc''), initial_state\<lparr>txState := TxSuccess ''0xfeed''\<rparr>)
   \<and> run_write unused_mathRound (example_options\<lparr>walletClient := None\<rparr>) Pause
        (initial_state\<lparr>txState := TxSuccess ''0xfeed''\<rparr>)
     = (Inl (ThrowError (Error ''Wallet client is required for transactions'')),
        initial_state\<lparr>txState := TxSuccess ''0xfeed''\<rparr>)"
  by (simp add: transfer_def pause_def executeTransaction_def then_refetch_def parseUnits_abc
        TOKEN_DECIMALS_def example_options_def)

text \<open>
  C1, amended. Take any of the eight write operations, with a wallet client and a read
  client present and, where the operation takes an amount, an amount that \<open>parseUnits\<close>
  accepts. The transaction cell is then set, in this order and to nothing else, to
  \<open>pending\<close>, to \<open>confirming\<close> with the hash that \<open>writeContract\<close> returned, and to
  \<open>success\<close> with that same hash once the receipt has been awaited; the operation returns
  the hash. If the simulation, the submission or the wait for the receipt rejects, the
  cell is set to the error state carrying the normalised error (after \<open>pending\<close>, or after
  \<open>confirming\<close> when it is the wait that rejects), the error cell holds that error, and
  the same error is thrown to the caller. The normalised error is the thrown \<open>Error\<close>
  itself, or a new \<open>Error\<close> with the text of a thrown value that is not one. The refetches
  started after a success do not touch the cell.
\<close>

theorem write_operation_state_sequence:
  assumes "walletClient opts = Some wc" and "publicClient opts = Some pc"
    and "write_call mathRound op = Inr (fn, args)"
  shows "tx_outcome pc wc (contractAddress opts) fn args s (run_write mathRound opts op s)"
proof -
  obtain R where R: "keeps_tx R"
    and run: "run_write mathRound opts op s = then_refetch R (executeTransaction opts fn args s)"
    using run_write_via_executeTransaction[OF assms(3)] by blast
  show ?thesis
    unfolding run
    by (rule tx_outcome_then_refetch[OF R executeTransaction_outcome[OF assms(1,2)]])
qed

theorem write_operation_state_sequence_witness:
  "write_call unused_mathRound (Mint ''0x00000000000000000000000000000000000000bb'' ''5.5'')
       = Inr (''mint'', [ArgAddress ''0x00000000000000000000000000000000000000bb'',
                         ArgUint 5500000000000000000])
   \<and> fst (run_write unused_mathRound example_options
            (Mint ''0x00000000000000000000000000000000000000bb'' ''5.5'') initial_state)
       = Inr ''0xfeed''
   \<and> tx_states (trace (snd (run_write unused_mathRound example_options
            (Mint ''0x00000000000000000000000000000000000000bb'' ''5.5'') initial_state)))
       = [TxPending, TxConfirming ''0xfeed'', TxSuccess ''0xfeed'']
   \<and> fst (run_write unused_mathRound reverting_options Pause initial_state)
       = Inl (ThrowError (Error ''execution reverted''))
   \<and> tx_states (trace (snd (run_write unused_mathRound reverting_options Pause initial_state)))
       = [TxPending, TxError (Error ''execution reverted'')]
   \<and> error (snd (run_write unused_mathRound reverting_options Pause initial_state))
       = Some (Error ''execution reverted'')
   \<and> fst (run_write unused_mathRound refusing_options
            (Approve ''0x00000000000000000000000000000000000000bb'' ''5.5'') initial_state)
       = Inl (ThrowError (Error ''User rejected the request''))
   \<and> tx_states (trace (snd (run_write unused_mathRound refusing_options
            (Approve ''0x00000000000000000000000000000000000000bb'' ''5.5'') initial_state)))
       = [TxPending, TxError (Error ''User rejected the request'')]
   \<and> fst (run_write unused_mathRound timing_out_options (Burn ''5.5'') initial_state)
       = Inl (ThrowError (Error ''Timed out while waiting for transaction''))
   \<and> tx_states (trace (snd (run_write unused_mathRound timing_out_options (Burn ''5.5'')
            initial_state)))
       = [TxPending, TxConfirming ''0xfeed'',
          TxError (Error ''Timed out while waiting for transaction'')]"
proof -
  have wc: "walletClient example_options = Some example_walletClient"
    and pc: "publicClient example_options = Some example_publicClient"
    and rwc: "walletClient reverting_options = Some example_walletClient"
    and rpc: "publicClient reverting_options = Some reverting_publicClient"
    and fwc: "walletClient refusing_options = Some refusing_walletClient"
    and fpc: "publicClient refusing_options = Some example_publicClient"
    and twc: "walletClient timing_out_options = Some example_walletClient"
    and tpc: "publicClient timing_out_options = Some timing_out_publicClient"
    by (simp_all add: example_options_def reverting_options_def refusing_options_def
          timing_out_options_def)
  have mint_call:
    "write_call unused_mathRound (Mint ''0x00000000000000000000000000000000000000bb'' ''5.5'')
       = Inr (''mint'', [ArgAddress ''0x00000000000000000000000000000000000000bb'',
                         ArgUint 5500000000000000000])"
    and pause_call: "write_call unused_mathRound Pause = Inr (''pause'', [])"
    and approve_call:
    "write_call unused_mathRound (Approve ''0x00000000000000000000000000000000000000bb'' ''5.5'')
       = Inr (''approve'', [ArgAddress ''0x00000000000000000000000000000000000000bb'',
                            ArgUint 5500000000000000000])"
    and burn_call:
    "write_call unused_mathRound (Burn ''5.5'') = Inr (''burn'', [ArgUint 5500000000000000000])"
    by (simp_all add: parseUnits_five_and_a_half await_def)
  show ?thesis
    using write_operation_state_sequence[OF wc pc mint_call, of initial_state]
          write_operation_state_sequence[OF rwc rpc pause_call, of initial_state]
          write_operation_state_sequence[OF fwc fpc approve_call, of initial_state]
          write_operation_state_sequence[OF twc tpc burn_call, of initial_state]
          mint_call
    by (simp add: tx_outcome_def tx_failed_def tx_succeeded_def example_publicClient_def
          example_walletClient_def reverting_publicClient_def refusing_walletClient_def
          timing_out_publicClient_def example_options_def reverting_options_def
          refusing_options_def timing_out_options_def initial_state_def)
qed

section \<open>Missing preconditions\<close>

text \<open>
  C8. An operation whose precondition is missing throws before anything is sent and
  before any state cell is written: the state it returns, trace included, is the state it
  was given. That holds for \<open>deployToken\<close> with no private key (absent or empty), for
  \<open>executeTransaction\<close> and with it each of the eight write operations with no wallet
  client (or no read client), and for \<open>getAllowance\<close> with no read client or no user address.
  An operation that takes an amount throws in that situation too, with the error of
  \<open>parseUnits\<close> when the amount is not a decimal number.
\<close>

theorem missing_precondition_raises_before_any_call:
  "(\<not> truthy (deploy_privateKey dopts) \<longrightarrow>
      deployToken fetch dopts params ds =
        (Inl (ThrowError (Error ''Private key is required for deployment'')), ds))
   \<and> (walletClient opts = None \<or> publicClient opts = None \<longrightarrow>
        executeTransaction opts fn args s =
          (Inl (ThrowError (Error ''Wallet client is required for transactions'')), s)
        \<and> isl (fst (run_write mathRound opts op s))
        \<and> snd (run_write mathRound opts op s) = s)
   \<and> (publicClient opts = None \<or> \<not> truthy (userAddress opts) \<longrightarrow>
        getAllowance opts spender s =
          (Inl (ThrowError (Error ''Public client and user address are required'')), s))"
proof (intro conjI impI)
  assume "\<not> truthy (deploy_privateKey dopts)"
  then show "deployToken fetch dopts params ds =
        (Inl (ThrowError (Error ''Private key is required for deployment'')), ds)"
    by (simp add: deployToken_def)
next
  assume nc: "walletClient opts = None \<or> publicClient opts = None"
  then show ex: "\<And>fn args. executeTransaction opts fn args s =
          (Inl (ThrowError (Error ''Wallet client is required for transactions'')), s)"
    by (auto simp: executeTransaction_def split: option.splits)
  have "isl (fst (run_write mathRound opts op s)) \<and> snd (run_write mathRound opts op s) = s"
    by (cases op)
       (simp_all add: transfer_def approve_def transferFrom_def mint_def burn_def pause_def
          unpause_def transferOwnership_def ex then_refetch_def split: sum.splits)
  then show "isl (fst (run_write mathRound opts op s))"
    and "snd (run_write mathRound opts op s) = s"
    by simp_all
next
  assume "publicClient opts = None \<or> \<not> truthy (userAddress opts)"
  then show "getAllowance opts spender s =
          (Inl (ThrowError (Error ''Public client and user address are required'')), s)"
    by (auto simp: getAllowance_def truthy_def split: option.splits)
qed

theorem missing_precondition_raises_before_any_call_witness:
  "\<not> truthy (deploy_privateKey (example_deploy_options\<lparr>deploy_privateKey := None\<rparr>))
   \<and> walletClient (example_options\<lparr>walletClient := None, userAddress := None\<rparr>) = None
   \<and> \<not> truthy (userAddress (example_options\<lparr>walletClient := None, userAddress := None\<rparr>))
   \<and> deployToken example_fetch (example_deploy_options\<lparr>deploy_privateKey := None\<rparr>)
         example_params initial_deploy_state =
        (Inl (ThrowError (Error ''Private key is required for deployment'')), initial_deploy_state)
   \<and> isl (fst (run_write (\<lambda>_. 0) (example_options\<lparr>walletClient := None, userAddress := None\<rparr>)
         (Mint ''0x00000000000000000000000000000000000000bb'' ''5.5'') initial_state))
   \<and> trace (snd (run_write (\<lambda>_. 0) (example_options\<lparr>walletClient := None, userAddress := None\<rparr>)
         (Mint ''0x00000000000000000000000000000000000000bb'' ''5.5'') initial_state)) = []
   \<and> getAllowance (example_options\<lparr>walletClient := None, userAddress := None\<rparr>)
         ''0x00000000000000000000000000000000000000bb'' initial_state =
        (Inl (ThrowError (Error ''Public client and user address are required'')), initial_state)"
  using missing_precondition_raises_before_any_call
          [of "example_deploy_options\<lparr>deploy_privateKey := None\<rparr>" example_fetch example_params
              initial_deploy_state "example_options\<lparr>walletClient := None, userAddress := None\<rparr>"
              "''mint''" "[]" initial_state "\<lambda>_. 0"
              "Mint ''0x00000000000000000000000000000000000000bb'' ''5.5''"
              "''0x00000000000000000000000000000000000000bb''"]
  by (simp add: truthy_def example_deploy_options_def initial_state_def)

section \<open>Encoding amounts\<close>

lemma executeTransaction_first_call:
  assumes "walletClient opts = Some wc" and "publicClient opts = Some pc"
  shows "\<exists>later. gateway_calls (trace (snd (executeTransaction opts fn args s))) =
           gateway_calls (trace s)
             @ SimulateContract (contractAddress opts) fn args (account wc) # later"
  using assms
  by (simp add: executeTransaction_def tx_catch_def Let_def setters gateway_calls_def
        split: sum.splits)

lemma refetchBalance_calls:
  "\<exists>later. gateway_calls (trace (refetchBalance opts t)) = gateway_calls (trace t) @ later"
  by (simp add: refetchBalance_def Let_def setters gateway_calls_def
        split: option.splits sum.splits)

lemma await_Inr: "await p Inr = p"
  by (simp add: await_def split: sum.splits)

text \<open>
  C4. A transfer of the amount \<open>5.5\<close> at the fixed 18 decimals: with both clients present,
  the first request the hook's \<open>transfer\<close> sends to the chain gateway after what was sent
  before is the simulation of the contract's \<open>transfer\<close> with the recipient and the raw
  amount 5500000000000000000 (the submission then sends the request that the simulation
  returned). The plain \<open>transfer\<close> of the interactions module calls the contract's
  \<open>transfer\<close> with the same raw amount, once the wallet has been built.
\<close>

theorem transfer_five_and_a_half:
  assumes "walletClient opts = Some wc" and "publicClient opts = Some pc"
  shows "(\<exists>later. gateway_calls (trace (snd (transfer mathRound opts to_addr ''5.5'' s))) =
            gateway_calls (trace s)
              @ SimulateContract (contractAddress opts) ''transfer''
                  [ArgAddress to_addr, ArgUint 5500000000000000000] (account wc) # later)
       \<and> interactions_transfer E ca to_addr ''5.5'' pk rpc =
           await (new_Wallet E pk rpc) (\<lambda>_.
             await (contract_send E ca pk rpc ''transfer''
                      [ArgAddress to_addr, ArgUint 5500000000000000000]) (tx_wait E))"
proof
  let ?args = "[ArgAddress to_addr, ArgUint 5500000000000000000]"
  let ?out = "executeTransaction opts ''transfer'' ?args s"
  obtain l1 where l1: "gateway_calls (trace (snd ?out)) =
      gateway_calls (trace s) @ SimulateContract (contractAddress opts) ''transfer'' ?args (account wc) # l1"
    using executeTransaction_first_call[OF assms] by blast
  obtain l2 where l2: "gateway_calls (trace (refetchBalance opts (snd ?out))) =
      gateway_calls (trace (snd ?out)) @ l2"
    using refetchBalance_calls by blast
  have tr: "transfer mathRound opts to_addr ''5.5'' s = then_refetch (refetchBalance opts) ?out"
    by (simp add: transfer_def TOKEN_DECIMALS_def parseUnits_five_and_a_half)
  show "\<exists>later. gateway_calls (trace (snd (transfer mathRound opts to_addr ''5.5'' s))) =
            gateway_calls (trace s)
              @ SimulateContract (contractAddress opts) ''transfer'' ?args (account wc) # later"
  proof (cases "fst ?out")
    case (Inl err)
    then have "snd (then_refetch (refetchBalance opts) ?out) = snd ?out"
      by (cases ?out) (simp add: then_refetch_def)
    then show ?thesis unfolding tr using l1 by simp
  next
    case (Inr hash)
    then have "snd (then_refetch (refetchBalance opts) ?out) = refetchBalance opts (snd ?out)"
      by (cases ?out) (simp add: then_refetch_def)
    then show ?thesis unfolding tr using l1 l2 by simp
  qed
next
  show "interactions_transfer E ca to_addr ''5.5'' pk rpc =
           await (new_Wallet E pk rpc) (\<lambda>_.
             await (contract_send E ca pk rpc ''transfer''
                      [ArgAddress to_addr, ArgUint 5500000000000000000]) (tx_wait E))"
    by (simp add: interactions_transfer_def TOKEN_DECIMALS_def ethers_parseUnits_five_and_a_half
          await_def split: sum.splits)
qed

theorem transfer_five_and_a_half_witness:
  "walletClient example_options = Some example_walletClient
   \<and> publicClient example_options = Some example_publicClient
   \<and> hd (gateway_calls (trace (snd (transfer (\<lambda>_. 0) example_options
           ''0x00000000000000000000000000000000000000bb'' ''5.5'' initial_state)))) =
       SimulateContract ''0x00000000000000000000000000000000000000cc'' ''transfer''
         [ArgAddress ''0x00000000000000000000000000000000000000bb'', ArgUint 5500000000000000000]
         (Some ''0x00000000000000000000000000000000000000aa'')
   \<and> interactions_transfer example_ethers ''0x00000000000000000000000000000000000000cc''
         ''0x00000000000000000000000000000000000000bb'' ''5.5'' ''0x01'' ''http://localhost:8547''
       = Inr ''0xfeed''"
proof -
  have wc: "walletClient example_options = Some example_walletClient"
    and pc: "publicClient example_options = Some example_publicClient"
    by (simp_all add: example_options_def)
  show ?thesis
    using transfer_five_and_a_half[OF wc pc, of "\<lambda>_. 0"
            "''0x00000000000000000000000000000000000000bb''" initial_state example_ethers
            "''0x00000000000000000000000000000000000000cc''" "''0x01''" "''http://localhost:8547''"]
          wc pc
    by (auto simp: initial_state_def gateway_calls_def example_options_def
          example_walletClient_def example_ethers_def await_def)
qed

section \<open>Formatting amounts\<close>

text \<open>
  C3. For a token whose \<open>totalSupply\<close> read returns 1000000000000000000000 and whose
  \<open>decimals\<close> read returns 18, the snapshot of the hook's token-info refresh has the
  formatted total supply \<open>1000\<close>, and the snapshot of the plain \<open>getTokenInfo\<close> has
  \<open>1000.0\<close>; both strings denote exactly the rational number totalSupply / 10^decimals.
\<close>

theorem thousand_tokens_formatted_total_supply:
  assumes "publicClient opts = Some pc"
    and "read_totalSupply pc (contractAddress opts) = Inr 1000000000000000000000"
    and "read_decimals pc (contractAddress opts) = Inr 18"
    and "tokenInfo (refetchTokenInfo opts s) = Success data"
    and "contract_totalSupply E ca rpc = Inr 1000000000000000000000"
    and "contract_decimals E ca rpc = Inr 18"
    and "interactions_getTokenInfo E ca rpc = Inr info"
  shows "formattedTotalSupply data = ''1000''
       \<and> formattedTotalSupply info = ''1000.0''
       \<and> decimal_value (formattedTotalSupply data) = 1000000000000000000000 / 10 ^ 18
       \<and> decimal_value (formattedTotalSupply info) = 1000000000000000000000 / 10 ^ 18"
proof -
  have d: "formattedTotalSupply data = formatUnits 1000000000000000000000 18"
    using assms(1-4)
    by (auto simp: refetchTokenInfo_def await_def setters Let_def split: sum.splits)
  have i: "formattedTotalSupply info = ethers_formatUnits 1000000000000000000000 18"
    using assms(5-7)
    by (auto simp: interactions_getTokenInfo_def await_def split: sum.splits)
  have "decimal_value (formattedTotalSupply data) = 1000000000000000000000 / 10 ^ 18"
    unfolding d formatUnits_value by simp
  moreover have "decimal_value (formattedTotalSupply info) = 1000000000000000000000 / 10 ^ 18"
    unfolding i ethers_formatUnits_value by simp
  ultimately show ?thesis
    using d i by (simp only: formatUnits_thousand ethers_formatUnits_thousand simp_thms)
qed


theorem thousand_tokens_formatted_total_supply_witness:
  "tokenInfo (refetchTokenInfo example_options initial_state)
     = Success (example_tokenInfo 18 ''1000'')
   \<and> interactions_getTokenInfo example_ethers ''0x00000000000000000000000000000000000000cc''
        ''http://localhost:8547'' = Inr (example_tokenInfo 18 ''1000.0'')
   \<and> decimal_value ''1000'' = 1000000000000000000000 / 10 ^ 18
   \<and> decimal_value ''1000.0'' = 1000000000000000000000 / 10 ^ 18"
proof -
  have pc: "publicClient example_options = Some example_publicClient"
    and ts: "read_totalSupply example_publicClient (contractAddress example_options)
               = Inr 1000000000000000000000"
    and dc: "read_decimals example_publicClient (contractAddress example_options) = Inr 18"
    and ets: "contract_totalSupply example_ethers ''0x00000000000000000000000000000000000000cc''
               ''http://localhost:8547'' = Inr 1000000000000000000000"
    and edc: "contract_decimals example_ethers ''0x00000000000000000000000000000000000000cc''
               ''http://localhost:8547'' = Inr 18"
    by (simp_all add: example_options_def example_publicClient_def example_ethers_def)
  have hook: "tokenInfo (refetchTokenInfo example_options initial_state)
                = Success (example_tokenInfo 18 ''1000'')"
    by (simp add: refetchTokenInfo_def example_options_def example_publicClient_def await_def
          setters Let_def initial_state_def example_tokenInfo_def formatUnits_thousand)
  have plain: "interactions_getTokenInfo example_ethers
                 ''0x00000000000000000000000000000000000000cc'' ''http://localhost:8547''
                = Inr (example_tokenInfo 18 ''1000.0'')"
    by (simp add: interactions_getTokenInfo_def example_ethers_def await_def
          example_tokenInfo_def ethers_formatUnits_thousand)
  show ?thesis
    using thousand_tokens_formatted_total_supply[OF pc ts dc hook ets edc plain] hook plain
    by (simp add: example_tokenInfo_def)
qed

lemma scaled_differently:
  assumes "v \<noteq> 0" and "d \<noteq> e"
  shows "(of_int v :: rat) / 10 ^ e \<noteq> of_int v / 10 ^ d"
proof
  assume "(of_int v :: rat) / 10 ^ e = of_int v / 10 ^ d"
  then have "(10::rat) ^ d = 10 ^ e"
    using assms(1) by (simp add: field_simps)
  then have "d = e"
    by simp
  with assms(2) show False by simp
qed

text \<open>
  C9, as stated, fails for an amount of zero: for a token of 6 decimals and a balance of 0
  the hook's formatted balance is \<open>0\<close>, which is raw / 10^decimals.
\<close>

theorem zero_balance_formatted_counterexample:
  "read_decimals six_decimals_client (contractAddress zero_balance_options) = Inr 6
   \<and> balance (refetchBalance zero_balance_options initial_state)
       = Success \<lparr>balance_raw = 0, formatted = ''0''\<rparr>
   \<and> decimal_value ''0'' = 0 / 10 ^ 6"
  by (simp add: six_decimals_client_def zero_balance_options_def example_options_def
        refetchBalance_def setters Let_def initial_state_def formatUnits_zero
        decimal_value_def unsigned_value_def digits_val_def digit_val_def)

text \<open>
  C9, amended. Every balance and allowance read, of the hook and of the plain functions,
  formats the raw amount with the fixed 18 decimals, whatever the token's own \<open>decimals\<close>
  read returns; only the token-info snapshot, of the hook and of the plain function,
  formats with the decimals read from the contract. So for any number of decimals other
  than 18 and a raw amount other than zero, the formatted balance and allowance do not
  denote raw / 10^decimals, while the formatted total supply does. Each read is stated
  under its own conditions only.
\<close>

theorem balance_and_allowance_formatted_with_eighteen_decimals:
  "(publicClient opts = Some pc \<and> userAddress opts = Some ua \<and> ua \<noteq> []
      \<and> read_balanceOf pc (contractAddress opts) ua = Inr b \<longrightarrow>
        balance (refetchBalance opts s)
          = Success \<lparr>balance_raw = b, formatted = formatUnits b 18\<rparr>
        \<and> (b \<noteq> 0 \<and> d \<noteq> 18 \<longrightarrow> decimal_value (formatUnits b 18) \<noteq> of_int b / 10 ^ d))
   \<and> (publicClient opts = Some pc \<and> userAddress opts = Some ua \<and> ua \<noteq> []
      \<and> read_allowance pc (contractAddress opts) ua spender = Inr a \<longrightarrow>
        fst (getAllowance opts spender s)
          = Inr \<lparr>allowance = a, allowance_formatted = formatUnits a 18\<rparr>
        \<and> (a \<noteq> 0 \<and> d \<noteq> 18 \<longrightarrow> decimal_value (formatUnits a 18) \<noteq> of_int a / 10 ^ d))
   \<and> (contract_balanceOf E ca rpc acct = Inr b \<longrightarrow>
        interactions_getBalance E ca acct rpc
          = Inr \<lparr>balance_raw = b, formatted = ethers_formatUnits b 18\<rparr>
        \<and> (b \<noteq> 0 \<and> d \<noteq> 18 \<longrightarrow>
              decimal_value (ethers_formatUnits b 18) \<noteq> of_int b / 10 ^ d))
   \<and> (contract_allowance E ca rpc acct spender = Inr a \<longrightarrow>
        interactions_getAllowance E ca acct spender rpc
          = Inr \<lparr>allowance = a, allowance_formatted = ethers_formatUnits a 18\<rparr>
        \<and> (a \<noteq> 0 \<and> d \<noteq> 18 \<longrightarrow>
              decimal_value (ethers_formatUnits a 18) \<noteq> of_int a / 10 ^ d))
   \<and> (publicClient opts = Some pc \<and> tokenInfo (refetchTokenInfo opts s) = Success data \<longrightarrow>
        read_decimals pc (contractAddress opts) = Inr (decimals data)
        \<and> read_totalSupply pc (contractAddress opts) = Inr (totalSupply data)
        \<and> formattedTotalSupply data = formatUnits (totalSupply data) (decimals data)
        \<and> decimal_value (formattedTotalSupply data)
            = of_int (totalSupply data) / 10 ^ decimals data)
   \<and> (interactions_getTokenInfo E ca rpc = Inr info \<longrightarrow>
        contract_decimals E ca rpc = Inr (decimals info)
        \<and> contract_totalSupply E ca rpc = Inr (totalSupply info)
        \<and> formattedTotalSupply info = ethers_formatUnits (totalSupply info) (decimals info)
        \<and> decimal_value (formattedTotalSupply info)
            = of_int (totalSupply info) / 10 ^ decimals info)"
proof (intro conjI impI; (elim conjE)?)
  assume "publicClient opts = Some pc" "userAddress opts = Some ua" "ua \<noteq> []"
    "read_balanceOf pc (contractAddress opts) ua = Inr b"
  then show "balance (refetchBalance opts s)
          = Success \<lparr>balance_raw = b, formatted = formatUnits b 18\<rparr>"
    by (simp add: refetchBalance_def setters Let_def TOKEN_DECIMALS_def)
next
  assume "publicClient opts = Some pc" "userAddress opts = Some ua" "ua \<noteq> []"
    "read_allowance pc (contractAddress opts) ua spender = Inr a"
  then show "fst (getAllowance opts spender s)
          = Inr \<lparr>allowance = a, allowance_formatted = formatUnits a 18\<rparr>"
    by (simp add: getAllowance_def setters Let_def TOKEN_DECIMALS_def)
next
  assume "contract_balanceOf E ca rpc acct = Inr b"
  then show "interactions_getBalance E ca acct rpc
          = Inr \<lparr>balance_raw = b, formatted = ethers_formatUnits b 18\<rparr>"
    by (simp add: interactions_getBalance_def await_def TOKEN_DECIMALS_def)
next
  assume "contract_allowance E ca rpc acct spender = Inr a"
  then show "interactions_getAllowance E ca acct spender rpc
          = Inr \<lparr>allowance = a, allowance_formatted = ethers_formatUnits a 18\<rparr>"
    by (simp add: interactions_getAllowance_def await_def TOKEN_DECIMALS_def)
next
  assume "b \<noteq> 0" "d \<noteq> 18"
  then show "decimal_value (formatUnits b 18) \<noteq> of_int b / 10 ^ d"
    unfolding formatUnits_value by (rule scaled_differently)
next
  assume "a \<noteq> 0" "d \<noteq> 18"
  then show "decimal_value (formatUnits a 18) \<noteq> of_int a / 10 ^ d"
    unfolding formatUnits_value by (rule scaled_differently)
next
  assume "b \<noteq> 0" "d \<noteq> 18"
  then show "decimal_value (ethers_formatUnits b 18) \<noteq> of_int b / 10 ^ d"
    unfolding ethers_formatUnits_value by (rule scaled_differently)
next
  assume "a \<noteq> 0" "d \<noteq> 18"
  then show "decimal_value (ethers_formatUnits a 18) \<noteq> of_int a / 10 ^ d"
    unfolding ethers_formatUnits_value by (rule scaled_differently)
next
  assume h: "publicClient opts = Some pc" "tokenInfo (refetchTokenInfo opts s) = Success data"
  then have parts: "read_decimals pc (contractAddress opts) = Inr (decimals data)
      \<and> read_totalSupply pc (contractAddress opts) = Inr (totalSupply data)
      \<and> formattedTotalSupply data = formatUnits (totalSupply data) (decimals data)"
    by (auto simp: refetchTokenInfo_def await_def setters Let_def split: sum.splits)
  from parts show "read_decimals pc (contractAddress opts) = Inr (decimals data)" by simp
  from parts show "read_totalSupply pc (contractAddress opts) = Inr (totalSupply data)" by simp
  from parts show "formattedTotalSupply data = formatUnits (totalSupply data) (decimals data)"
    by simp
  then show "decimal_value (formattedTotalSupply data)
              = of_int (totalSupply data) / 10 ^ decimals data"
    by (simp only: formatUnits_value)
next
  assume h: "interactions_getTokenInfo E ca rpc = Inr info"
  then have parts: "contract_decimals E ca rpc = Inr (decimals info)
      \<and> contract_totalSupply E ca rpc = Inr (totalSupply info)
      \<and> formattedTotalSupply info = ethers_formatUnits (totalSupply info) (decimals info)"
    by (auto simp: interactions_getTokenInfo_def await_def split: sum.splits)
  from parts show "contract_decimals E ca rpc = Inr (decimals info)" by simp
  from parts show "contract_totalSupply E ca rpc = Inr (totalSupply info)" by simp
  from parts show "formattedTotalSupply info
                     = ethers_formatUnits (totalSupply info) (decimals info)"
    by simp
  then show "decimal_value (formattedTotalSupply info)
              = of_int (totalSupply info) / 10 ^ decimals info"
    by (simp only: ethers_formatUnits_value)
qed

theorem balance_and_allowance_formatted_with_eighteen_decimals_witness:
  "read_decimals six_decimals_client (contractAddress six_decimals_options) = Inr 6
   \<and> balance (refetchBalance six_decimals_options initial_state)
       = Success \<lparr>balance_raw = 1500000000000000000, formatted = ''1.5''\<rparr>
   \<and> decimal_value ''1.5'' \<noteq> 1500000000000000000 / 10 ^ 6
   \<and> fst (getAllowance six_decimals_options ''0x00000000000000000000000000000000000000bb''
         initial_state)
       = Inr \<lparr>allowance = 250000000000000000, allowance_formatted = ''0.25''\<rparr>
   \<and> decimal_value ''0.25'' \<noteq> 250000000000000000 / 10 ^ 6
   \<and> interactions_getBalance example_ethers ''0x00000000000000000000000000000000000000cc''
        ''0x00000000000000000000000000000000000000aa'' ''http://localhost:8547''
       = Inr \<lparr>balance_raw = 1500000000000000000, formatted = ''1.5''\<rparr>
   \<and> interactions_getAllowance example_ethers ''0x00000000000000000000000000000000000000cc''
        ''0x00000000000000000000000000000000000000aa''
        ''0x00000000000000000000000000000000000000bb'' ''http://localhost:8547''
       = Inr \<lparr>allowance = 250000000000000000, allowance_formatted = ''0.25''\<rparr>
   \<and> tokenInfo (refetchTokenInfo six_decimals_options initial_state)
       = Success (example_tokenInfo 6 ''1000000000000000'')
   \<and> decimal_value ''1000000000000000'' = 1000000000000000000000 / 10 ^ 6
   \<and> interactions_getTokenInfo example_ethers ''0x00000000000000000000000000000000000000cc''
        ''http://localhost:8547'' = Inr (example_tokenInfo 18 ''1000.0'')"
proof -
  have pc: "publicClient six_decimals_options = Some six_decimals_client"
    and ua: "userAddress six_decimals_options = Some ''0x00000000000000000000000000000000000000aa''"
    and dec: "read_decimals six_decimals_client (contractAddress six_decimals_options) = Inr 6"
    and bal: "read_balanceOf six_decimals_client (contractAddress six_decimals_options)
                ''0x00000000000000000000000000000000000000aa'' = Inr 1500000000000000000"
    and alw: "read_allowance six_decimals_client (contractAddress six_decimals_options)
                ''0x00000000000000000000000000000000000000aa''
                ''0x00000000000000000000000000000000000000bb'' = Inr 250000000000000000"
    and pbal: "contract_balanceOf example_ethers ''0x00000000000000000000000000000000000000cc''
                ''http://localhost:8547'' ''0x00000000000000000000000000000000000000aa''
                = Inr 1500000000000000000"
    and palw: "contract_allowance example_ethers ''0x00000000000000000000000000000000000000cc''
                ''http://localhost:8547'' ''0x00000000000000000000000000000000000000aa''
                ''0x00000000000000000000000000000000000000bb'' = Inr 250000000000000000"
    by (simp_all add: six_decimals_options_def six_decimals_client_def example_options_def
          example_publicClient_def example_ethers_def)
  have info: "tokenInfo (refetchTokenInfo six_decimals_options initial_state)
                = Success (example_tokenInfo 6 ''1000000000000000'')"
    by (simp add: refetchTokenInfo_def six_decimals_options_def six_decimals_client_def
          example_options_def example_publicClient_def await_def setters Let_def
          initial_state_def example_tokenInfo_def formatUnits_thousand_six)
  have plain: "interactions_getTokenInfo example_ethers
                 ''0x00000000000000000000000000000000000000cc'' ''http://localhost:8547''
                = Inr (example_tokenInfo 18 ''1000.0'')"
    by (simp add: interactions_getTokenInfo_def example_ethers_def await_def
          example_tokenInfo_def ethers_formatUnits_thousand)
  show ?thesis
    using balance_and_allowance_formatted_with_eighteen_decimals
            [where opts = six_decimals_options and pc = six_decimals_client
               and ua = "''0x00000000000000000000000000000000000000aa''"
               and b = 1500000000000000000 and a = 250000000000000000 and d = 6
               and spender = "''0x00000000000000000000000000000000000000bb''"
               and s = initial_state and E = example_ethers
               and ca = "''0x00000000000000000000000000000000000000cc''"
               and rpc = "''http://localhost:8547''"
               and acct = "''0x00000000000000000000000000000000000000aa''"
               and data = "example_tokenInfo 6 ''1000000000000000''"
               and info = "example_tokenInfo 18 ''1000.0''"]
          pc ua dec bal alw pbal palw info plain
    by (simp add: formatUnits_one_and_a_half formatUnits_quarter
          ethers_formatUnits_one_and_a_half ethers_formatUnits_quarter example_tokenInfo_def
          formatUnits_thousand_six ethers_formatUnits_thousand)
qed

section \<open>Deployment\<close>

lemma nat_to_string_500: "nat_to_string 500 = ''500''"
  by (simp add: eval_digits)

text \<open>
  C2, as stated, fails for a body whose \<open>error\<close> field is the empty string: the empty
  string is falsy, so the message is the fallback built from the status.
\<close>

theorem empty_error_message_counterexample:
  "r_error (error_body []) = Some []
   \<and> deployToken (respond_with \<lparr>status = 500, json = Inr (error_body [])\<rparr>)
        example_deploy_options example_params initial_deploy_state
     = (Inl (ThrowError (Error ''Deployment failed with status 500'')),
        \<lparr>deploymentState = DeployError (Error ''Deployment failed with status 500''),
         deploy_error = Some (Error ''Deployment failed with status 500''),
         deploy_trace =
           [SetDeployError None, SetDeploymentState Deploying,
            Fetch (request_url example_api_params) (request_body example_api_params),
            SetDeployError (Some (Error ''Deployment failed with status 500'')),
            SetDeploymentState (DeployError (Error ''Deployment failed with status 500''))]\<rparr>)"
  by (simp add: deployToken_def deployERC20TokenViaAPI_def respond_with_def error_body_def
        example_deploy_options_def example_api_params_def initial_deploy_state_def truthy_def
        or_else_def ok_def to_Error_def setDeploymentState_def setDeployError_def Let_def
        nat_to_string_500)

text \<open>
  C2, amended. When the gateway answers a deployment request with a status outside 200 to
  299 and a JSON body whose \<open>error\<close> field is a non-empty string, \<open>deployToken\<close> ends with
  the deployment state failed, carrying an error whose message is exactly that string; the
  error cell holds the same error and it is thrown to the caller.
\<close>

theorem deployment_error_message_surfaced:
  assumes "deploy_privateKey opts = Some pk" and "pk \<noteq> []"
    and "fetch (request_url (api_params opts pk params)) (request_body (api_params opts pk params))
           = Inr response"
    and "\<not> ok response"
    and "json response = Inr body" and "r_error body = Some msg" and "msg \<noteq> []"
  shows "fst (deployToken fetch opts params s) = Inl (ThrowError (Error msg))
       \<and> deploymentState (snd (deployToken fetch opts params s)) = DeployError (Error msg)
       \<and> deploy_error (snd (deployToken fetch opts params s)) = Some (Error msg)"
proof -
  have "deployERC20TokenViaAPI fetch (api_params opts pk params) = Inl (ThrowError (Error msg))"
    using assms(3-7) by (simp add: deployERC20TokenViaAPI_def or_else_def)
  then show ?thesis
    using assms(1,2)
    by (simp add: deployToken_def truthy_def or_else_def to_Error_def Let_def
          setDeploymentState_def setDeployError_def)
qed

theorem deployment_error_message_surfaced_witness:
  "\<not> ok \<lparr>status = 500, json = Inr (error_body ''insufficient funds'')\<rparr>
   \<and> fst (deployToken (respond_with \<lparr>status = 500, json = Inr (error_body ''insufficient funds'')\<rparr>)
        example_deploy_options example_params initial_deploy_state)
       = Inl (ThrowError (Error ''insufficient funds''))
   \<and> deploymentState (snd (deployToken
        (respond_with \<lparr>status = 500, json = Inr (error_body ''insufficient funds'')\<rparr>)
        example_deploy_options example_params initial_deploy_state))
       = DeployError (Error ''insufficient funds'')"
proof -
  let ?response = "\<lparr>status = 500, json = Inr (error_body ''insufficient funds'')\<rparr>"
  have pk: "deploy_privateKey example_deploy_options = Some ''0x01''" and ne: "''0x01'' \<noteq> []"
    by (simp_all add: example_deploy_options_def)
  have f: "respond_with ?response
             (request_url (api_params example_deploy_options ''0x01'' example_params))
             (request_body (api_params example_deploy_options ''0x01'' example_params))
           = Inr ?response"
    by (simp add: respond_with_def)
  have nok: "\<not> ok ?response" by (simp add: ok_def)
  have j: "json ?response = Inr (error_body ''insufficient funds'')" by simp
  have e: "r_error (error_body ''insufficient funds'') = Some ''insufficient funds''"
    by (simp add: error_body_def)
  have m: "''insufficient funds'' \<noteq> []" by simp
  show ?thesis
    using deployment_error_message_surfaced
            [where fetch = "respond_with ?response" and params = example_params
               and s = initial_deploy_state, OF pk ne f nok j e m] nok
    by simp
qed

text \<open>
  C5, as stated, fails for \<open>txHash\<close>: a response body with no \<open>txHash\<close> field gives a
  result whose \<open>txHash\<close> is \<open>0x\<close>.
\<close>

theorem missing_txHash_counterexample:
  "r_txHash no_hash_body = None
   \<and> deployERC20TokenViaAPI (respond_with \<lparr>status = 200, json = Inr no_hash_body\<rparr>)
        example_api_params
     = Inr \<lparr>tokenAddress = Some ''0x00000000000000000000000000000000000000dd'',
            txHash = ''0x'', success = Some True, deployOutput = Some ''deployed'',
            initOutput = None, registerOutput = None\<rparr>"
  by (simp add: deployERC20TokenViaAPI_def respond_with_def no_hash_body_def ok_def or_else_def)

text \<open>
  C5, amended. For a response with a status from 200 to 299 and a JSON body, the result of
  \<open>deployERC20TokenViaAPI\<close> has \<open>tokenAddress\<close>, \<open>success\<close>, \<open>deployOutput\<close>, \<open>initOutput\<close>
  and \<open>registerOutput\<close> exactly as the body has them; its \<open>txHash\<close> is the body's when
  that is present and not empty, and \<open>0x\<close> otherwise.
\<close>

theorem deployment_result_passed_through:
  assumes "fetch (request_url params) (request_body params) = Inr response"
    and "ok response" and "json response = Inr body"
  shows "deployERC20TokenViaAPI fetch params =
           Inr \<lparr>tokenAddress = r_tokenAddress body,
                txHash = (case r_txHash body of
                            None \<Rightarrow> ''0x''
                          | Some h \<Rightarrow> if h = [] then ''0x'' else h),
                success = r_success body,
                deployOutput = r_deployOutput body,
                initOutput = r_initOutput body,
                registerOutput = r_registerOutput body\<rparr>"
  using assms by (simp add: deployERC20TokenViaAPI_def or_else_def)

theorem deployment_result_passed_through_witness:
  "ok \<lparr>status = 200, json = Inr example_body\<rparr>
   \<and> deployERC20TokenViaAPI example_fetch example_api_params
     = Inr \<lparr>tokenAddress = Some ''0x00000000000000000000000000000000000000dd'',
            txHash = ''0xbeef'', success = Some True, deployOutput = Some ''deployed'',
            initOutput = Some ''initialized'', registerOutput = None\<rparr>"
proof -
  let ?response = "\<lparr>status = 200, json = Inr example_body\<rparr>"
  have f: "example_fetch (request_url example_api_params) (request_body example_api_params)
             = Inr ?response"
    by (simp add: example_fetch_def respond_with_def)
  have k: "ok ?response" by (simp add: ok_def)
  have j: "json ?response = Inr example_body" by simp
  show ?thesis
    using deployment_result_passed_through
            [where fetch = example_fetch and params = example_api_params, OF f k j] k
    by (simp add: example_body_def)
qed

section \<open>Registration check\<close>

lemma of_char_lower_char:
  "(of_char (lower_char c) :: nat) = (if is_upper c then of_char c + 32 else of_char c)"
  by (simp add: lower_char_def is_upper_def)

lemma lower_char_eq_iff: "lower_char x = lower_char y \<longleftrightarrow> same_letter x y"
proof -
  have xy: "x = y \<longleftrightarrow> (of_char x :: nat) = of_char y" by simp
  have "lower_char x = lower_char y
          \<longleftrightarrow> (of_char (lower_char x) :: nat) = of_char (lower_char y)"
    by simp
  also have "\<dots> \<longleftrightarrow> same_letter x y"
    unfolding of_char_lower_char same_letter_def is_upper_def xy by auto
  finally show ?thesis .
qed

lemma toLowerCase_eq_iff: "toLowerCase a = toLowerCase b \<longleftrightarrow> equal_ignoring_case a b"
proof -
  have "toLowerCase a = toLowerCase b
          \<longleftrightarrow> list_all2 (=) (map lower_char a) (map lower_char b)"
    by (simp add: toLowerCase_def list_all2_eq)
  also have "\<dots> \<longleftrightarrow> list_all2 (\<lambda>x y. lower_char x = lower_char y) a b"
    by (simp add: list_all2_map1 list_all2_map2)
  finally show ?thesis
    by (simp add: equal_ignoring_case_def lower_char_eq_iff)
qed

text \<open>
  C6. When the factory read \<open>getAllDeployedTokens\<close> throws, \<open>isTokenRegistered\<close> returns
  false and throws nothing. When the read succeeds, it returns true exactly when one of the
  returned addresses equals the queried token address under case-insensitive comparison.
\<close>

theorem isTokenRegistered_result:
  "(getAllDeployedTokens factory rpc = Inl err \<longrightarrow>
      isTokenRegistered getAllDeployedTokens token factory rpc = Inr False)
   \<and> (getAllDeployedTokens factory rpc = Inr allTokens \<longrightarrow>
      isTokenRegistered getAllDeployedTokens token factory rpc
        = Inr (\<exists>addr \<in> set allTokens. equal_ignoring_case addr token))"
  by (simp add: isTokenRegistered_def list_ex_iff toLowerCase_eq_iff)


theorem isTokenRegistered_result_witness:
  "failing_read ''0xed088fd93517b0d0c3a3e4d2e2c419fb58570556'' ''http://localhost:8547''
     = Inl (ThrowError (Error ''could not detect network''))
   \<and> isTokenRegistered failing_read ''0x00000000000000000000000000000000000000dd''
        ''0xed088fd93517b0d0c3a3e4d2e2c419fb58570556'' ''http://localhost:8547'' = Inr False
   \<and> equal_ignoring_case ''0x00000000000000000000000000000000000000Dd''
        ''0x00000000000000000000000000000000000000dd''
   \<and> isTokenRegistered registered_tokens ''0x00000000000000000000000000000000000000dd''
        ''0xed088fd93517b0d0c3a3e4d2e2c419fb58570556'' ''http://localhost:8547'' = Inr True"
proof -
  have eq: "equal_ignoring_case ''0x00000000000000000000000000000000000000Dd''
              ''0x00000000000000000000000000000000000000dd''"
    by (simp add: equal_ignoring_case_def same_letter_def is_upper_def)
  show ?thesis
    using isTokenRegistered_result
            [of failing_read "''0xed088fd93517b0d0c3a3e4d2e2c419fb58570556''"
                "''http://localhost:8547''" "ThrowError (Error ''could not detect network'')"
                "''0x00000000000000000000000000000000000000dd''" "[]"]
          isTokenRegistered_result
            [of registered_tokens "''0xed088fd93517b0d0c3a3e4d2e2c419fb58570556''"
                "''http://localhost:8547''" "ThrowError (Error ''x'')"
                "''0x00000000000000000000000000000000000000dd''"
                "[''0x00000000000000000000000000000000000000AA'',
                  ''0x00000000000000000000000000000000000000Dd'']"]
          eq
    by (simp add: failing_read_def registered_tokens_def)
qed

end
